theory Spec2Isabelle
  imports Complex_Main "HOL-Library.Word"
begin

section \<open>The image analyzer of dive: data model\<close>

text \<open>
  The development follows \<^verbatim>\<open>src/image/docker_image.go\<close> (the analyzer) and the layer
  accessors of \<^verbatim>\<open>src/unnamed/part_001\<close>; \<^verbatim>\<open>src/unnamed/part_000\<close> is another revision of
  the analyzer, with the same \<^verbatim>\<open>Analyze\<close>. Go's \<^verbatim>\<open>uint64\<close> and \<^verbatim>\<open>int64\<close> are 64-bit
  words (the conversion \<^verbatim>\<open>uint64(x)\<close> of an \<^verbatim>\<open>int64\<close> keeps the bits), a \<^verbatim>\<open>byte\<close> is an
  8-bit word, a Go string is a list of bytes, a pointer that may be \<^verbatim>\<open>nil\<close> is an
  \<open>option\<close>, and a Go map is a partial function.
\<close>

type_synonym byte = "8 word"
type_synonym uint64 = "64 word"

text \<open>
  A run of the Go code ends in one of three ways: it returns a value, it returns a
  non-nil \<^verbatim>\<open>error\<close>, or it panics. The last two are the two constructors of \<open>failure\<close>;
  a panic is either the one raised by \<^verbatim>\<open>logrus.Panic(err)\<close> or one of the two run-time
  panics the analyzer can hit.
\<close>

datatype panic = LogrusPanic string | IndexOutOfRange | NilDereference

datatype failure = Panic panic | Error string

subsection \<open>Strings\<close>

text \<open>\<^verbatim>\<open>strings.HasPrefix\<close> and \<^verbatim>\<open>strings.TrimPrefix\<close> of the Go standard library.\<close>

definition HasPrefix :: "string \<Rightarrow> string \<Rightarrow> bool" where
  "HasPrefix s prefix \<longleftrightarrow> length s \<ge> length prefix \<and> take (length prefix) s = prefix"

definition TrimPrefix :: "string \<Rightarrow> string \<Rightarrow> string" where
  "TrimPrefix s prefix = (if HasPrefix s prefix then drop (length prefix) s else s)"

subsection \<open>Archive records and file trees\<close>

text \<open>
  \<^verbatim>\<open>tar.Header\<close>, with the fields the analyzer and \<^verbatim>\<open>filetree.NewFileInfo\<close> read, and the
  type flags of \<^verbatim>\<open>archive/tar\<close> (\<^verbatim>\<open>'0'\<close>, \<^verbatim>\<open>'2'\<close>, \<^verbatim>\<open>'5'\<close>, \<^verbatim>\<open>'x'\<close>, \<^verbatim>\<open>'g'\<close>, \<^verbatim>\<open>'L'\<close>, \<^verbatim>\<open>'K'\<close>).
\<close>

record Header =
  Name :: string
  Typeflag :: byte
  Header_Linkname :: string
  Header_Size :: uint64

definition TypeReg :: byte where "TypeReg = 48"
definition TypeSymlink :: byte where "TypeSymlink = 50"
definition TypeDir :: byte where "TypeDir = 53"
definition TypeXHeader :: byte where "TypeXHeader = 120"
definition TypeXGlobalHeader :: byte where "TypeXGlobalHeader = 103"
definition TypeGNULongName :: byte where "TypeGNULongName = 76"
definition TypeGNULongLink :: byte where "TypeGNULongLink = 75"

text \<open>
  \<^verbatim>\<open>filetree.FileInfo\<close> and \<^verbatim>\<open>filetree.FileTree\<close> are declared in the \<^verbatim>\<open>filetree\<close> package,
  which is not part of the sources at hand; the records hold the fields the analyzer
  uses (\<^verbatim>\<open>element.Path\<close>, \<^verbatim>\<open>element.Size\<close>, \<^verbatim>\<open>tree.Name\<close>, \<^verbatim>\<open>tree.FileSize\<close>) and those the
  specification lists for a file record. The node structure of a tree is the type
  parameter \<open>'n\<close>: the analyzer never looks into it.
\<close>

record FileInfo =
  Path :: string
  TypeFlag :: byte
  Linkname :: string
  FileInfo_Size :: uint64

record 'n FileTree =
  FileTree_Name :: string
  FileSize :: uint64
  Root :: 'n

subsection \<open>Manifest, config and layers\<close>

record dockerImageManifest =
  ConfigPath :: string
  LayerTarPaths :: "string list"

record dockerImageHistoryEntry =
  ID :: string
  Size :: uint64
  CreatedBy :: string
  EmptyLayer :: bool

record dockerImageRootFs =
  DiffIds :: "string list"

record dockerImageConfig =
  History :: "dockerImageHistoryEntry list"
  RootFs :: dockerImageRootFs

text \<open>The struct \<^verbatim>\<open>dockerLayer\<close>; \<^verbatim>\<open>index\<close> is a Go \<^verbatim>\<open>int\<close>, \<^verbatim>\<open>tree\<close> a pointer.\<close>

record 'n dockerLayer =
  tarPath :: string
  history :: dockerImageHistoryEntry
  index :: int
  tree :: "'n FileTree option"

text \<open>The accessors \<^verbatim>\<open>Size()\<close>, \<^verbatim>\<open>Index()\<close>, \<^verbatim>\<open>Tree()\<close> and \<^verbatim>\<open>Command()\<close> of a layer.\<close>

definition layer_Size :: "'n dockerLayer \<Rightarrow> uint64" where
  "layer_Size layer = Size (history layer)"

definition layer_Index :: "'n dockerLayer \<Rightarrow> int" where
  "layer_Index layer = index layer"

definition layer_Tree :: "'n dockerLayer \<Rightarrow> 'n FileTree option" where
  "layer_Tree layer = tree layer"

definition Command :: "'n dockerLayer \<Rightarrow> string" where
  "Command layer = TrimPrefix (CreatedBy (history layer)) ''/bin/sh -c ''"

section \<open>Building one layer's tree\<close>

text \<open>
  A \<^verbatim>\<open>tar.Reader\<close> is the sequence of the records of the archive that are still to be
  read: a record with its header, or the error (other than \<^verbatim>\<open>io.EOF\<close>) that reading
  at this place gives (\<open>Inl\<close>, with its message). The header of a record is the header
  as the reader decodes it for that record.
\<close>

type_synonym tarReader = "(string + Header) list"

text \<open>
  \<^verbatim>\<open>Next()\<close> of \<^verbatim>\<open>archive/tar\<close>, which is not part of the sources at hand: it returns
  \<^verbatim>\<open>io.EOF\<close> (\<open>None\<close>) at the end, an error, or the next header. It never returns a
  PAX extended header (\<^verbatim>\<open>'x'\<close>) or a GNU long name or long link record (\<^verbatim>\<open>'L'\<close>,
  \<^verbatim>\<open>'K'\<close>): it reads such a record itself, as data about the entry that follows, and
  goes on to the next record. A PAX global header (\<^verbatim>\<open>'g'\<close>) is returned like any other
  entry. The second component of the result is the reader after the call.
\<close>

definition consumedByNext :: "Header \<Rightarrow> bool" where
  "consumedByNext hdr \<longleftrightarrow>
     Typeflag hdr = TypeXHeader \<or> Typeflag hdr = TypeGNULongName \<or>
     Typeflag hdr = TypeGNULongLink"

fun Reader_Next :: "tarReader \<Rightarrow> (string + Header) option \<times> tarReader" where
  "Reader_Next [] = (None, [])"
| "Reader_Next (Inl err # rest) = (Some (Inl err), rest)"
| "Reader_Next (Inr hdr # rest) =
     (if consumedByNext hdr then Reader_Next rest else (Some (Inr hdr), rest))"

text \<open>
  The text of \<^verbatim>\<open>fmt.Errorf("Provided Tar file '%s' has unexpected header '%v' (...)")\<close>;
  \<^verbatim>\<open>%v\<close> prints the type flag, a byte, in decimal.
\<close>

definition unexpectedHeader :: "string \<Rightarrow> string \<Rightarrow> string \<Rightarrow> string" where
  "unexpectedHeader name flag kind =
     ''Provided Tar file '' @ [CHR 0x27] @ name @ [CHR 0x27] @
     '' has unexpected header '' @ [CHR 0x27] @ flag @ [CHR 0x27] @ '' ('' @ kind @ '')''"

text \<open>
  \<^verbatim>\<open>getFileList\<close>: the loop calls \<^verbatim>\<open>Next()\<close> until \<^verbatim>\<open>io.EOF\<close>. \<^verbatim>\<open>filetree.NewFileInfo\<close>
  is not part of the sources at hand and is a parameter: it builds the record of one
  entry from its header and name (it also reads the entry's content, which does not
  change what \<^verbatim>\<open>Next()\<close> returns afterwards). Each call of \<^verbatim>\<open>Next()\<close> that returns a header
  leaves a shorter reader, so the loop ends.
\<close>

function getFileList_loop ::
  "(Header \<Rightarrow> string \<Rightarrow> FileInfo) \<Rightarrow> tarReader \<Rightarrow> FileInfo list \<Rightarrow> failure + FileInfo list"
where
  "getFileList_loop NewFileInfo tarReader files =
     (case Reader_Next tarReader of
        (None, after) \<Rightarrow> Inr files
      | (Some (Inl err), after) \<Rightarrow> Inl (Error err)
      | (Some (Inr header), after) \<Rightarrow>
          (if Typeflag header = TypeXGlobalHeader
           then Inl (Error (unexpectedHeader (Name header) ''103'' ''XGlobalHeader''))
           else if Typeflag header = TypeXHeader
           then Inl (Error (unexpectedHeader (Name header) ''120'' ''XHeader''))
           else getFileList_loop NewFileInfo after
                  (files @ [NewFileInfo header (Name header)])))"
  by pat_completeness auto
termination
proof (relation "measure (\<lambda>(NewFileInfo, tarReader, files). length tarReader)")
  show "wf (measure (\<lambda>(NewFileInfo, tarReader, files). length tarReader))"
    by simp
next
  fix NewFileInfo :: "Header \<Rightarrow> string \<Rightarrow> FileInfo"
    and tarReader :: tarReader and files :: "FileInfo list"
    and x and after and result and x2 and header
  assume "(x, after) = Reader_Next tarReader" "x = Some result" "result = Inr header"
  then have found: "Reader_Next tarReader = (Some (Inr header), after)"
    by simp
  have "length rest < length reader"
    if "Reader_Next reader = (Some found, rest)" for reader found rest
    using that
  proof (induction reader)
    case Nil
    then show ?case by simp
  next
    case (Cons entry reader)
    then show ?case
      by (cases entry) (auto split: if_splits)
  qed
  from this [OF found]
  show "((NewFileInfo, after, files @ [NewFileInfo header (Name header)]),
         (NewFileInfo, tarReader, files))
        \<in> measure (\<lambda>(NewFileInfo, tarReader, files). length tarReader)"
    by simp
qed

declare getFileList_loop.simps [simp del]

definition getFileList ::
  "(Header \<Rightarrow> string \<Rightarrow> FileInfo) \<Rightarrow> tarReader \<Rightarrow> failure + FileInfo list" where
  "getFileList NewFileInfo tarReader = getFileList_loop NewFileInfo tarReader []"

text \<open>
  Modelled from the spec: \<^verbatim>\<open>filetree.NewFileTree\<close> is not part of the sources at hand. A
  tree starts with the running total \<open>fileSize\<close> at zero; its empty node structure is
  the argument.
\<close>

definition NewFileTree :: "'n \<Rightarrow> 'n FileTree" where
  "NewFileTree nodes = \<lparr>FileTree_Name = [], FileSize = 0, Root = nodes\<rparr>"

text \<open>
  The loop of \<^verbatim>\<open>processLayerTar\<close> over \<^verbatim>\<open>fileInfos\<close>. \<^verbatim>\<open>tree.AddPath\<close> is not part of the
  sources at hand and is a parameter: it works on the node structure of the tree and
  either fails with a message or gives the new node structure.
\<close>

fun addElements ::
  "('n \<Rightarrow> string \<Rightarrow> FileInfo \<Rightarrow> string + 'n) \<Rightarrow> FileInfo list \<Rightarrow> 'n FileTree \<Rightarrow>
   failure + 'n FileTree"
where
  "addElements AddPath [] fileTree = Inr fileTree"
| "addElements AddPath (element # rest) fileTree =
     (let fileTree = fileTree\<lparr>FileSize := FileSize fileTree + FileInfo_Size element\<rparr> in
      case AddPath (Root fileTree) (Path element) element of
        Inl err \<Rightarrow> Inl (Error err)
      | Inr nodes \<Rightarrow> addElements AddPath rest (fileTree\<lparr>Root := nodes\<rparr>))"

definition processLayerTar ::
  "(Header \<Rightarrow> string \<Rightarrow> FileInfo) \<Rightarrow> ('n \<Rightarrow> string \<Rightarrow> FileInfo \<Rightarrow> string + 'n) \<Rightarrow> 'n \<Rightarrow>
   string \<Rightarrow> nat \<Rightarrow> tarReader \<Rightarrow> failure + 'n FileTree"
where
  "processLayerTar NewFileInfo AddPath emptyRoot name layerIdx reader =
     (let fileTree = (NewFileTree emptyRoot)\<lparr>FileTree_Name := name\<rparr> in
      case getFileList NewFileInfo reader of
        Inl err \<Rightarrow> Inl err
      | Inr fileInfos \<Rightarrow> addElements AddPath fileInfos fileTree)"

subsection \<open>The file records and the path map of the specification\<close>

text \<open>
  Modelled from the spec: \<^verbatim>\<open>filetree.NewFileInfo\<close> is not part of the sources at hand. A
  file record holds the path, the byte size, the type and the link target of the entry.
\<close>

definition NewFileInfo :: "Header \<Rightarrow> string \<Rightarrow> FileInfo" where
  "NewFileInfo header path =
     \<lparr>Path = path, TypeFlag = Typeflag header, Linkname = Header_Linkname header,
      FileInfo_Size = Header_Size header\<rparr>"

text \<open>
  Modelled from the spec: \<^verbatim>\<open>tree.AddPath\<close> is not part of the sources at hand. A layer
  tree owns a mapping from path to record in which the last write wins: a record
  replaces any prior record at its path. The mapping is an association list.
\<close>

definition AddPath :: "(string \<times> FileInfo) list \<Rightarrow> string \<Rightarrow> FileInfo \<Rightarrow>
    string + (string \<times> FileInfo) list" where
  "AddPath nodes path data = Inr (filter (\<lambda>(p, _). p \<noteq> path) nodes @ [(path, data)])"

text \<open>
  The kinds of the specification: a record whose final path segment starts with the
  deletion marker \<^verbatim>\<open>.wh.\<close> is a whiteout, the others follow the type flag.
\<close>

datatype kind = Regular | Directory | Symlink | Whiteout | Other

definition finalSegment :: "string \<Rightarrow> string" where
  "finalSegment path = rev (takeWhile (\<lambda>c. c \<noteq> CHR ''/'') (rev path))"

definition kindOf :: "FileInfo \<Rightarrow> kind" where
  "kindOf r =
     (if HasPrefix (finalSegment (Path r)) ''.wh.'' then Whiteout
      else if TypeFlag r = TypeReg then Regular
      else if TypeFlag r = TypeDir then Directory
      else if TypeFlag r = TypeSymlink then Symlink
      else Other)"

text \<open>
  The total the specification words for \<open>fileSize\<close>: the sum of the sizes of the
  regular records kept in the path map.
\<close>

definition keptRegularSize :: "(string \<times> FileInfo) list \<Rightarrow> uint64" where
  "keptRegularSize nodes =
     sum_list (map FileInfo_Size (filter (\<lambda>r. kindOf r = Regular) (map snd nodes)))"

section \<open>Analyzing an image\<close>

text \<open>
  The analyzer, with the two fields \<^verbatim>\<open>Analyze\<close> reads; \<^verbatim>\<open>trees\<close> and \<^verbatim>\<open>layers\<close> are
  overwritten by \<^verbatim>\<open>Analyze\<close> before it reads them and are local values below. Reading
  a Go map at a missing key gives the zero value: \<^verbatim>\<open>nil\<close> bytes, a \<^verbatim>\<open>nil\<close> tree.
\<close>

record 'n dockerImageAnalyzer =
  jsonFiles :: "string \<rightharpoonup> byte list"
  layerMap :: "string \<rightharpoonup> 'n FileTree"

definition fileBytes :: "(string \<rightharpoonup> byte list) \<Rightarrow> string \<Rightarrow> byte list" where
  "fileBytes files name = (case files name of None \<Rightarrow> [] | Some bytes \<Rightarrow> bytes)"

text \<open>
  Indexing a slice with a Go \<^verbatim>\<open>int\<close> panics out of range. Lengths are far below
  \<open>2^63\<close>, so the \<^verbatim>\<open>int\<close> arithmetic on indices does not wrap and is arithmetic on \<open>int\<close>.
\<close>

definition index_at :: "'a list \<Rightarrow> int \<Rightarrow> failure + 'a" where
  "index_at xs i = (if 0 \<le> i \<and> i < int (length xs) then Inr (xs ! nat i)
              else Inl (Panic IndexOutOfRange))"

text \<open>
  \<^verbatim>\<open>newDockerImageManifest\<close> and \<^verbatim>\<open>newDockerImageConfig\<close>. \<^verbatim>\<open>json.Unmarshal\<close> is a
  parameter: from the bytes it gives its error (\<open>Inl\<close>, the message) or the decoded
  value.
\<close>

definition newDockerImageManifest ::
  "(byte list \<Rightarrow> string + dockerImageManifest list) \<Rightarrow> byte list \<Rightarrow>
   failure + dockerImageManifest"
where
  "newDockerImageManifest Unmarshal manifestBytes =
     (case Unmarshal manifestBytes of
        Inl err \<Rightarrow> Inl (Panic (LogrusPanic err))
      | Inr manifest \<Rightarrow> index_at manifest 0)"

fun assignIDs ::
  "dockerImageHistoryEntry list \<Rightarrow> string list \<Rightarrow> int \<Rightarrow>
   failure + dockerImageHistoryEntry list"
where
  "assignIDs [] diffIds layerIdx = Inr []"
| "assignIDs (entry # rest) diffIds layerIdx =
     (if EmptyLayer entry
      then (case assignIDs rest diffIds layerIdx of
              Inl err \<Rightarrow> Inl err
            | Inr rest' \<Rightarrow> Inr (entry\<lparr>ID := ''<missing>''\<rparr> # rest'))
      else (case index_at diffIds layerIdx of
              Inl err \<Rightarrow> Inl err
            | Inr diffId \<Rightarrow>
                (case assignIDs rest diffIds (layerIdx + 1) of
                   Inl err \<Rightarrow> Inl err
                 | Inr rest' \<Rightarrow> Inr (entry\<lparr>ID := diffId\<rparr> # rest'))))"

definition newDockerImageConfig ::
  "(byte list \<Rightarrow> string + dockerImageConfig) \<Rightarrow> byte list \<Rightarrow> failure + dockerImageConfig"
where
  "newDockerImageConfig Unmarshal configBytes =
     (case Unmarshal configBytes of
        Inl err \<Rightarrow> Inl (Panic (LogrusPanic err))
      | Inr imageConfig \<Rightarrow>
          (case assignIDs (History imageConfig) (DiffIds (RootFs imageConfig)) 0 of
             Inl err \<Rightarrow> Inl err
           | Inr entries \<Rightarrow> Inr (imageConfig\<lparr>History := entries\<rparr>)))"

text \<open>
  The loop of \<^verbatim>\<open>Analyze\<close> over \<^verbatim>\<open>config.History\<close> that builds the layers array. The
  arguments after the history are the array \<^verbatim>\<open>image.layers\<close> and the two cursors
  \<^verbatim>\<open>layerIdx\<close> and \<^verbatim>\<open>tarPathIdx\<close>. Reading \<^verbatim>\<open>tree.FileSize\<close> through a \<^verbatim>\<open>nil\<close> tree panics.
\<close>

fun buildLayers ::
  "'n FileTree option list \<Rightarrow> string list \<Rightarrow> dockerImageHistoryEntry list \<Rightarrow>
   'n dockerLayer option list \<Rightarrow> int \<Rightarrow> int \<Rightarrow> failure + 'n dockerLayer option list"
where
  "buildLayers trees paths [] layers layerIdx tarPathIdx = Inr layers"
| "buildLayers trees paths (entry # rest) layers layerIdx tarPathIdx =
     (if EmptyLayer entry then buildLayers trees paths rest layers layerIdx tarPathIdx
      else
        (case index_at trees ((int (length trees) - 1) - layerIdx) of
           Inl err \<Rightarrow> Inl err
         | Inr None \<Rightarrow> Inl (Panic NilDereference)
         | Inr (Some t) \<Rightarrow>
             (case index_at trees layerIdx of
                Inl err \<Rightarrow> Inl err
              | Inr layerTree \<Rightarrow>
                  (case index_at paths tarPathIdx of
                     Inl err \<Rightarrow> Inl err
                   | Inr path \<Rightarrow>
                       (if 0 \<le> layerIdx \<and> layerIdx < int (length layers)
                        then buildLayers trees paths rest
                               (layers[nat layerIdx :=
                                  Some \<lparr>tarPath = path,
                                        history = entry\<lparr>Size := FileSize t\<rparr>,
                                        index = layerIdx,
                                        tree = layerTree\<rparr>])
                               (layerIdx - 1) (tarPathIdx + 1)
                        else Inl (Panic IndexOutOfRange))))))"

text \<open>
  The loop over \<^verbatim>\<open>image.layers\<close> that copies the layers and adds up the sizes;
  \<^verbatim>\<open>v.Size()\<close> on a \<^verbatim>\<open>nil\<close> layer panics. The arguments after the array are the position
  \<^verbatim>\<open>i\<close> and the values of \<^verbatim>\<open>layers\<close>, \<^verbatim>\<open>sizeBytes\<close> and \<^verbatim>\<open>userSizeBytes\<close> so far.
\<close>

fun sumLayers ::
  "'n dockerLayer option list \<Rightarrow> nat \<Rightarrow> 'n dockerLayer list \<times> uint64 \<times> uint64 \<Rightarrow>
   failure + 'n dockerLayer list \<times> uint64 \<times> uint64"
where
  "sumLayers [] i acc = Inr acc"
| "sumLayers (None # rest) i acc = Inl (Panic NilDereference)"
| "sumLayers (Some v # rest) i (layers, sizeBytes, userSizeBytes) =
     sumLayers rest (i + 1)
       (layers @ [v], sizeBytes + layer_Size v,
        if i \<noteq> 0 then userSizeBytes + layer_Size v else userSizeBytes)"

text \<open>
  \<^verbatim>\<open>filetree.EfficiencyData\<close>, with the fields the specification lists for a duplicate
  path, and the loop that adds up \<^verbatim>\<open>wastedBytes\<close>, from the last entry to the first.
\<close>

record EfficiencyData =
  EfficiencyData_Path :: string
  CumulativeSize :: uint64

fun sumWasted :: "EfficiencyData list \<Rightarrow> nat \<Rightarrow> uint64 \<Rightarrow> uint64" where
  "sumWasted inefficiencies 0 wastedBytes = wastedBytes"
| "sumWasted inefficiencies (Suc remaining) wastedBytes =
     sumWasted inefficiencies remaining
       (wastedBytes + CumulativeSize (inefficiencies ! remaining))"

record ('n, 'f) AnalysisResult =
  Layers :: "'n dockerLayer list"
  RefTrees :: "'n FileTree option list"
  Efficiency :: 'f
  UserSizeByes :: uint64
  SizeBytes :: uint64
  WastedBytes :: uint64
  WastedUserPercent :: 'f
  Inefficiencies :: "EfficiencyData list"

text \<open>
  \<^verbatim>\<open>Analyze\<close>. Its parameters are the code it calls outside the sources at hand: the two
  uses of \<^verbatim>\<open>json.Unmarshal\<close>, \<^verbatim>\<open>filetree.Efficiency\<close> (which returns a score and the
  duplicated paths, or panics) and the \<^verbatim>\<open>float64\<close> quotient
  \<^verbatim>\<open>float64(wastedBytes) / float64(userSizeBytes)\<close>; \<open>'f\<close> stands for \<^verbatim>\<open>float64\<close>. The Go
  function returns a \<^verbatim>\<open>nil\<close> error on every path that returns.
\<close>

definition Analyze ::
  "(byte list \<Rightarrow> string + dockerImageManifest list) \<Rightarrow>
   (byte list \<Rightarrow> string + dockerImageConfig) \<Rightarrow>
   ('n FileTree option list \<Rightarrow> panic + 'f \<times> EfficiencyData list) \<Rightarrow>
   (uint64 \<Rightarrow> uint64 \<Rightarrow> 'f) \<Rightarrow>
   'n dockerImageAnalyzer \<Rightarrow> failure + ('n, 'f) AnalysisResult"
where
  "Analyze UnmarshalManifest UnmarshalConfig Efficiency_fn float_quotient img =
     (case newDockerImageManifest UnmarshalManifest
             (fileBytes (jsonFiles img) ''manifest.json'') of
        Inl err \<Rightarrow> Inl err
      | Inr manifest \<Rightarrow>
     (case newDockerImageConfig UnmarshalConfig
             (fileBytes (jsonFiles img) (ConfigPath manifest)) of
        Inl err \<Rightarrow> Inl err
      | Inr config \<Rightarrow>
     (let trees = map (layerMap img) (LayerTarPaths manifest) in
      case buildLayers trees (LayerTarPaths manifest) (History config)
             (replicate (length trees) None) (int (length trees) - 1) 0 of
        Inl err \<Rightarrow> Inl err
      | Inr image_layers \<Rightarrow>
     (case Efficiency_fn trees of
        Inl p \<Rightarrow> Inl (Panic p)
      | Inr (efficiency, inefficiencies) \<Rightarrow>
     (case sumLayers image_layers 0 ([], 0, 0) of
        Inl err \<Rightarrow> Inl err
      | Inr (layers, sizeBytes, userSizeBytes) \<Rightarrow>
     (let wastedBytes = sumWasted inefficiencies (length inefficiencies) 0 in
      Inr \<lparr>Layers = layers,
           RefTrees = trees,
           Efficiency = efficiency,
           UserSizeByes = userSizeBytes,
           SizeBytes = sizeBytes,
           WastedBytes = wastedBytes,
           WastedUserPercent = float_quotient wastedBytes userSizeBytes,
           Inefficiencies = inefficiencies\<rparr>))))))"

text \<open>The history entries that have layer content, in the order of the history.\<close>

abbreviation nonEmpty :: "dockerImageHistoryEntry list \<Rightarrow> dockerImageHistoryEntry list" where
  "nonEmpty \<equiv> filter (\<lambda>entry. \<not> EmptyLayer entry)"

section \<open>The efficiency score\<close>

text \<open>
  Modelled from the spec: \<^verbatim>\<open>filetree.Efficiency\<close>, which computes the score that
  \<^verbatim>\<open>Analyze\<close> stores in its result, is not part of the sources at hand. The score is
  \<open>1 - wastedBytes / userSizeBytes\<close> when \<open>userSizeBytes > 0\<close> and \<open>1.0\<close> when
  \<open>userSizeBytes = 0\<close>. The quotient of two byte counts is taken over the reals and
  has no value when the divisor is zero.
\<close>

definition byteRatio :: "uint64 \<Rightarrow> uint64 \<Rightarrow> real option" where
  "byteRatio a b = (if b = 0 then None else Some (real (unat a) / real (unat b)))"

definition efficiencyScore :: "uint64 \<Rightarrow> uint64 \<Rightarrow> real option" where
  "efficiencyScore wastedBytes userSizeBytes =
     (if userSizeBytes > 0
      then map_option (\<lambda>ratio. 1 - ratio) (byteRatio wastedBytes userSizeBytes)
      else Some 1)"

section \<open>Example inputs\<close>

text \<open>A layer archive that writes the path \<^verbatim>\<open>a\<close> twice, and the tree built from it.\<close>

definition twoWrites :: tarReader where
  "twoWrites =
     [Inr \<lparr>Name = ''a'', Typeflag = TypeReg, Header_Linkname = [], Header_Size = 100\<rparr>,
      Inr \<lparr>Name = ''a'', Typeflag = TypeReg, Header_Linkname = [], Header_Size = 40\<rparr>]"

definition twoWritesTree :: "(string \<times> FileInfo) list FileTree" where
  "twoWritesTree =
     \<lparr>FileTree_Name = ''a/layer.tar'', FileSize = 140,
      Root = [(''a'', \<lparr>Path = ''a'', TypeFlag = TypeReg, Linkname = [], FileInfo_Size = 40\<rparr>)]\<rparr>"

text \<open>
  A layer archive as \<^verbatim>\<open>tar --format=pax\<close> writes it: a PAX extended header record for the
  file \<^verbatim>\<open>a\<close>, then the file itself; and the tree built from it.
\<close>

definition paxArchive :: tarReader where
  "paxArchive =
     [Inr \<lparr>Name = ''PaxHeaders.0/a'', Typeflag = TypeXHeader, Header_Linkname = [],
           Header_Size = 52\<rparr>,
      Inr \<lparr>Name = ''a'', Typeflag = TypeReg, Header_Linkname = [], Header_Size = 100\<rparr>]"

definition paxArchiveTree :: "(string \<times> FileInfo) list FileTree" where
  "paxArchiveTree =
     \<lparr>FileTree_Name = ''a/layer.tar'', FileSize = 100,
      Root = [(''a'', \<lparr>Path = ''a'', TypeFlag = TypeReg, Linkname = [], FileInfo_Size = 100\<rparr>)]\<rparr>"

text \<open>
  An image with the history \<^verbatim>\<open>ADD\<close> (content), \<^verbatim>\<open>CMD\<close> (no content), \<^verbatim>\<open>RUN\<close> (content),
  manifests with two and with three layer paths, three built trees, and an analyzer
  that holds them all or only the first. The decoders of the examples ignore the
  bytes; \<open>noDuplicates\<close> and \<open>noFloat\<close> stand for \<^verbatim>\<open>filetree.Efficiency\<close> and the
  \<^verbatim>\<open>float64\<close> quotient, with \<open>unit\<close> for \<^verbatim>\<open>float64\<close>.
\<close>

definition baseEntry :: dockerImageHistoryEntry where
  "baseEntry = \<lparr>ID = [], Size = 0, CreatedBy = ''/bin/sh -c #(nop) ADD file:a in /'',
                 EmptyLayer = False\<rparr>"

definition cmdEntry :: dockerImageHistoryEntry where
  "cmdEntry = \<lparr>ID = [], Size = 0, CreatedBy = ''/bin/sh -c #(nop) CMD [sh]'',
                EmptyLayer = True\<rparr>"

definition runEntry :: dockerImageHistoryEntry where
  "runEntry = \<lparr>ID = [], Size = 0, CreatedBy = ''/bin/sh -c apt-get update'',
                EmptyLayer = False\<rparr>"

definition exampleConfig :: dockerImageConfig where
  "exampleConfig = \<lparr>History = [baseEntry, cmdEntry, runEntry],
                     RootFs = \<lparr>DiffIds = [''sha256:a'', ''sha256:b'']\<rparr>\<rparr>"

definition twoLayers :: dockerImageManifest where
  "twoLayers = \<lparr>ConfigPath = ''config.json'',
                 LayerTarPaths = [''a/layer.tar'', ''b/layer.tar'']\<rparr>"

definition threeLayers :: dockerImageManifest where
  "threeLayers = \<lparr>ConfigPath = ''config.json'',
                   LayerTarPaths = [''a/layer.tar'', ''b/layer.tar'', ''c/layer.tar'']\<rparr>"

definition treeA :: "unit FileTree" where
  "treeA = \<lparr>FileTree_Name = ''a/layer.tar'', FileSize = 100, Root = ()\<rparr>"

definition treeB :: "unit FileTree" where
  "treeB = \<lparr>FileTree_Name = ''b/layer.tar'', FileSize = 50, Root = ()\<rparr>"

definition treeC :: "unit FileTree" where
  "treeC = \<lparr>FileTree_Name = ''c/layer.tar'', FileSize = 7, Root = ()\<rparr>"

definition exampleImage :: "unit dockerImageAnalyzer" where
  "exampleImage =
     \<lparr>jsonFiles = Map.empty,
      layerMap = [''a/layer.tar'' \<mapsto> treeA, ''b/layer.tar'' \<mapsto> treeB, ''c/layer.tar'' \<mapsto> treeC]\<rparr>"

definition incompleteImage :: "unit dockerImageAnalyzer" where
  "incompleteImage = \<lparr>jsonFiles = Map.empty, layerMap = [''a/layer.tar'' \<mapsto> treeA]\<rparr>"

definition noDuplicates :: "unit FileTree option list \<Rightarrow> panic + unit \<times> EfficiencyData list" where
  "noDuplicates trees = Inr ((), [])"

definition noFloat :: "uint64 \<Rightarrow> uint64 \<Rightarrow> unit" where
  "noFloat wastedBytes userSizeBytes = ()"

definition twoLayersResult :: "(unit, unit) AnalysisResult" where
  "twoLayersResult =
     \<lparr>Layers =
        [\<lparr>tarPath = ''b/layer.tar'',
          history = \<lparr>ID = ''sha256:b'', Size = 50, CreatedBy = ''/bin/sh -c apt-get update'',
                     EmptyLayer = False\<rparr>,
          index = 0, tree = Some treeA\<rparr>,
         \<lparr>tarPath = ''a/layer.tar'',
          history = \<lparr>ID = ''sha256:a'', Size = 100,
                     CreatedBy = ''/bin/sh -c #(nop) ADD file:a in /'', EmptyLayer = False\<rparr>,
          index = 1, tree = Some treeB\<rparr>],
      RefTrees = [Some treeA, Some treeB],
      Efficiency = (), UserSizeByes = 100, SizeBytes = 150, WastedBytes = 0,
      WastedUserPercent = (), Inefficiencies = []\<rparr>"

section \<open>The layer accessors\<close>

lemma HasPrefix_append: "HasPrefix (p @ rest) p"
  by (simp add: HasPrefix_def)

lemma HasPrefix_iff: "HasPrefix s p \<longleftrightarrow> (\<exists>rest. s = p @ rest)"
proof
  assume "HasPrefix s p"
  then have "s = p @ drop (length p) s"
    by (metis HasPrefix_def append_take_drop_id)
  then show "\<exists>rest. s = p @ rest" ..
next
  assume "\<exists>rest. s = p @ rest"
  then show "HasPrefix s p"
    by (auto simp: HasPrefix_append)
qed

text \<open>
  C10. \<^verbatim>\<open>Command()\<close> returns the history entry's \<^verbatim>\<open>createdBy\<close> without the literal
  prefix \<^verbatim>\<open>"/bin/sh -c "\<close> when the string starts with it, and \<^verbatim>\<open>createdBy\<close> unchanged
  when it does not.
\<close>

theorem Command_trims_shell_prefix:
  "(\<forall>rest. CreatedBy (history layer) = ''/bin/sh -c '' @ rest \<longrightarrow> Command layer = rest) \<and>
   ((\<nexists>rest. CreatedBy (history layer) = ''/bin/sh -c '' @ rest) \<longrightarrow>
      Command layer = CreatedBy (history layer))"
proof (intro conjI allI impI)
  fix rest
  assume "CreatedBy (history layer) = ''/bin/sh -c '' @ rest"
  then show "Command layer = rest"
    unfolding Command_def TrimPrefix_def
    by (simp only: HasPrefix_append if_True drop_append length_Cons list.size)
       simp
next
  assume "\<nexists>rest. CreatedBy (history layer) = ''/bin/sh -c '' @ rest"
  then have "\<not> HasPrefix (CreatedBy (history layer)) ''/bin/sh -c ''"
    by (simp only: HasPrefix_iff not_False_eq_True)
  then show "Command layer = CreatedBy (history layer)"
    by (simp add: Command_def TrimPrefix_def)
qed

theorem Command_trims_shell_prefix_witness:
  "Command \<lparr>tarPath = ''a/layer.tar'',
            history = \<lparr>ID = ''sha256:a'', Size = 7, CreatedBy = ''/bin/sh -c apt-get update'',
                       EmptyLayer = False\<rparr>,
            index = 0, tree = (None :: unit FileTree option)\<rparr> = ''apt-get update'' \<and>
   Command \<lparr>tarPath = ''b/layer.tar'',
            history = \<lparr>ID = ''sha256:b'', Size = 3, CreatedBy = ''#(nop) CMD [sh]'',
                       EmptyLayer = False\<rparr>,
            index = 1, tree = (None :: unit FileTree option)\<rparr> = ''#(nop) CMD [sh]''"
  using Command_trims_shell_prefix
      [of "\<lparr>tarPath = ''a/layer.tar'',
            history = \<lparr>ID = ''sha256:a'', Size = 7, CreatedBy = ''/bin/sh -c apt-get update'',
                       EmptyLayer = False\<rparr>,
            index = 0, tree = (None :: unit FileTree option)\<rparr>"]
    Command_trims_shell_prefix
      [of "\<lparr>tarPath = ''b/layer.tar'',
            history = \<lparr>ID = ''sha256:b'', Size = 3, CreatedBy = ''#(nop) CMD [sh]'',
                       EmptyLayer = False\<rparr>,
            index = 1, tree = (None :: unit FileTree option)\<rparr>"]
  by simp

section \<open>Building one layer's tree: properties\<close>

lemma getFileList_loop_Nil: "getFileList_loop nfi [] files = Inr files"
  by (simp add: getFileList_loop.simps [of _ "[]"])

lemma getFileList_loop_error: "getFileList_loop nfi (Inl err # rest) files = Inl (Error err)"
  by (simp add: getFileList_loop.simps [of _ "Inl err # rest"])

lemma getFileList_loop_header:
  "getFileList_loop nfi (Inr h # rest) files =
     (if consumedByNext h then getFileList_loop nfi rest files
      else if Typeflag h = TypeXGlobalHeader
      then Inl (Error (unexpectedHeader (Name h) ''103'' ''XGlobalHeader''))
      else getFileList_loop nfi rest (files @ [nfi h (Name h)]))"
proof (cases "consumedByNext h")
  case True
  then show ?thesis
    by (simp add: getFileList_loop.simps [of _ "Inr h # rest"] getFileList_loop.simps [of _ rest])
next
  case False
  then have "Typeflag h \<noteq> TypeXHeader"
    by (simp add: consumedByNext_def)
  with False show ?thesis
    by (simp add: getFileList_loop.simps [of _ "Inr h # rest"])
qed

lemmas getFileList_loop_unfold =
  getFileList_loop_Nil getFileList_loop_error getFileList_loop_header

lemma XGlobalHeader_not_consumed: "Typeflag h = TypeXGlobalHeader \<Longrightarrow> \<not> consumedByNext h"
  by (simp add: consumedByNext_def TypeXGlobalHeader_def TypeXHeader_def TypeGNULongName_def
        TypeGNULongLink_def)

lemma getFileList_loop_first_XGlobalHeader:
  assumes "\<forall>x\<in>set pre. Typeflag x \<noteq> TypeXGlobalHeader"
    and "Typeflag h = TypeXGlobalHeader"
  shows "getFileList_loop nfi (map Inr pre @ Inr h # rest) files =
           Inl (Error (unexpectedHeader (Name h) ''103'' ''XGlobalHeader''))"
  using assms
  by (induction pre arbitrary: files)
     (simp_all add: getFileList_loop_header XGlobalHeader_not_consumed)

lemma getFileList_loop_Inr:
  "getFileList_loop nfi reader files = Inr fs \<Longrightarrow>
     \<exists>records. reader = map Inr records \<and>
       fs = files @ map (\<lambda>h. nfi h (Name h)) (filter (\<lambda>h. \<not> consumedByNext h) records)"
proof (induction reader arbitrary: files)
  case Nil
  then show ?case by (simp add: getFileList_loop_Nil)
next
  case (Cons entry reader)
  show ?case
  proof (cases entry)
    case (Inl err)
    with Cons.prems show ?thesis by (simp add: getFileList_loop_error)
  next
    case (Inr h)
    show ?thesis
    proof (cases "consumedByNext h")
      case True
      with Cons.prems Inr have "getFileList_loop nfi reader files = Inr fs"
        by (simp add: getFileList_loop_header)
      from Cons.IH [OF this] obtain records where "reader = map Inr records"
        and "fs = files @ map (\<lambda>h. nfi h (Name h)) (filter (\<lambda>h. \<not> consumedByNext h) records)"
        by blast
      with True Inr have "entry # reader = map Inr (h # records) \<and>
          fs = files @ map (\<lambda>h. nfi h (Name h)) (filter (\<lambda>h. \<not> consumedByNext h) (h # records))"
        by simp
      then show ?thesis by (rule exI)
    next
      case False
      with Cons.prems Inr
      have run: "getFileList_loop nfi reader (files @ [nfi h (Name h)]) = Inr fs"
        by (simp add: getFileList_loop_header split: if_splits)
      from Cons.IH [OF run] obtain records where "reader = map Inr records"
        and "fs = (files @ [nfi h (Name h)]) @
               map (\<lambda>h. nfi h (Name h)) (filter (\<lambda>h. \<not> consumedByNext h) records)"
        by blast
      with False Inr have "entry # reader = map Inr (h # records) \<and>
          fs = files @ map (\<lambda>h. nfi h (Name h)) (filter (\<lambda>h. \<not> consumedByNext h) (h # records))"
        by simp
      then show ?thesis by (rule exI)
    qed
  qed
qed

lemma addElements_FileSize:
  "addElements addPath fs t0 = Inr t \<Longrightarrow>
     FileSize t = FileSize t0 + sum_list (map FileInfo_Size fs) \<and>
     FileTree_Name t = FileTree_Name t0"
proof (induction fs arbitrary: t0)
  case Nil
  then show ?case by simp
next
  case (Cons element rest)
  then show ?case
    by (auto simp: Let_def split: sum.splits)
qed

lemmas flag_defs =
  TypeReg_def TypeXHeader_def TypeXGlobalHeader_def TypeGNULongName_def TypeGNULongLink_def

lemma twoWrites_run:
  "processLayerTar NewFileInfo AddPath [] ''a/layer.tar'' 1 twoWrites = Inr twoWritesTree"
  by (simp add: processLayerTar_def getFileList_def getFileList_loop_unfold consumedByNext_def
        NewFileTree_def NewFileInfo_def AddPath_def flag_defs twoWrites_def twoWritesTree_def)

text \<open>
  C6, as the code has it. When \<^verbatim>\<open>processLayerTar\<close> returns a tree, the archive held
  records only, and the tree's \<^verbatim>\<open>FileSize\<close> is the sum, in 64-bit arithmetic, of the
  sizes of all the records that \<^verbatim>\<open>Next()\<close> returned: every one adds its size when it is
  visited, whatever its type, and also when a later record replaces it at the same
  path.
\<close>

theorem processLayerTar_FileSize_all_records:
  assumes "processLayerTar nfi addPath emptyRoot name layerIdx reader = Inr t"
  shows "\<exists>records. reader = map Inr records \<and>
           FileSize t =
             sum_list (map (\<lambda>h. FileInfo_Size (nfi h (Name h)))
                         (filter (\<lambda>h. \<not> consumedByNext h) records))"
proof -
  from assms obtain fs where fs: "getFileList nfi reader = Inr fs"
    and t: "addElements addPath fs ((NewFileTree emptyRoot)\<lparr>FileTree_Name := name\<rparr>) = Inr t"
    by (auto simp: processLayerTar_def Let_def split: sum.splits)
  from fs obtain records where r: "reader = map Inr records"
    and m: "fs = map (\<lambda>h. nfi h (Name h)) (filter (\<lambda>h. \<not> consumedByNext h) records)"
    using getFileList_loop_Inr [of nfi reader "[]" fs] by (auto simp: getFileList_def)
  from addElements_FileSize [OF t] have "FileSize t = sum_list (map FileInfo_Size fs)"
    by (simp add: NewFileTree_def)
  with m have "FileSize t =
      sum_list (map (\<lambda>h. FileInfo_Size (nfi h (Name h)))
                  (filter (\<lambda>h. \<not> consumedByNext h) records))"
    by (simp add: comp_def)
  with r show ?thesis by blast
qed

theorem processLayerTar_FileSize_all_records_witness:
  "processLayerTar NewFileInfo AddPath [] ''a/layer.tar'' 1 twoWrites = Inr twoWritesTree \<and>
   (\<exists>records. twoWrites = map Inr records \<and>
      FileSize twoWritesTree =
        sum_list (map (\<lambda>h. FileInfo_Size (NewFileInfo h (Name h)))
                    (filter (\<lambda>h. \<not> consumedByNext h) records)))"
  using twoWrites_run processLayerTar_FileSize_all_records [OF twoWrites_run]
  by (rule conjI)

text \<open>
  C6, as the specification states it, fails. The archive \<open>twoWrites\<close> writes the path
  \<^verbatim>\<open>a\<close> twice, 100 bytes and then 40 bytes. The tree keeps the second record only, so
  its kept regular records sum to 40, but its \<^verbatim>\<open>FileSize\<close> is 140.
\<close>

theorem FileSize_kept_regular_counterexample:
  "processLayerTar NewFileInfo AddPath [] ''a/layer.tar'' 1 twoWrites = Inr twoWritesTree \<and>
   FileSize twoWritesTree = 140 \<and> keptRegularSize (Root twoWritesTree) = 40 \<and>
   FileSize twoWritesTree \<noteq> keptRegularSize (Root twoWritesTree)"
  using twoWrites_run
  by (simp add: twoWritesTree_def keptRegularSize_def kindOf_def TypeReg_def
        finalSegment_def HasPrefix_def)

text \<open>
  A global extended header does end the build: when the records of the archive hold
  one, \<^verbatim>\<open>processLayerTar\<close> returns no tree but the format error of the first such
  record \<open>h\<close>, whose message holds the name of \<open>h\<close>, whatever follows it.
\<close>

lemma processLayerTar_XGlobalHeader:
  assumes "\<exists>h\<in>set records. Typeflag h = TypeXGlobalHeader"
  shows "\<exists>pre h post. records = pre @ h # post \<and>
           (\<forall>x\<in>set pre. Typeflag x \<noteq> TypeXGlobalHeader) \<and>
           Typeflag h = TypeXGlobalHeader \<and>
           processLayerTar nfi addPath emptyRoot name layerIdx (map Inr records @ rest) =
             Inl (Error (''Provided Tar file '' @ [CHR 0x27] @ Name h @ [CHR 0x27] @
                         '' has unexpected header '' @ [CHR 0x27] @ ''103'' @ [CHR 0x27] @
                         '' (XGlobalHeader)''))"
proof -
  from assms obtain pre h post where split: "records = pre @ h # post"
    and bad: "Typeflag h = TypeXGlobalHeader"
    and good: "\<forall>x\<in>set pre. Typeflag x \<noteq> TypeXGlobalHeader"
    using split_list_first_prop [of records "\<lambda>h. Typeflag h = TypeXGlobalHeader"]
    by blast
  have "getFileList nfi (map Inr records @ rest) =
          Inl (Error (unexpectedHeader (Name h) ''103'' ''XGlobalHeader''))"
    unfolding getFileList_def split
    using getFileList_loop_first_XGlobalHeader [OF good bad, of nfi "map Inr post @ rest" "[]"]
    by simp
  then have "processLayerTar nfi addPath emptyRoot name layerIdx (map Inr records @ rest) =
             Inl (Error (''Provided Tar file '' @ [CHR 0x27] @ Name h @ [CHR 0x27] @
                         '' has unexpected header '' @ [CHR 0x27] @ ''103'' @ [CHR 0x27] @
                         '' (XGlobalHeader)''))"
    by (simp add: processLayerTar_def Let_def unexpectedHeader_def)
  with split good bad show ?thesis by blast
qed

lemma getFileList_loop_skips_XHeader:
  "Typeflag h = TypeXHeader \<Longrightarrow>
     getFileList_loop nfi (Inr h # rest) files = getFileList_loop nfi rest files"
  by (simp add: getFileList_loop_header consumedByNext_def)

text \<open>
  C7. The claim is that a layer archive with an extended header record (\<^verbatim>\<open>XHeader\<close> or
  \<^verbatim>\<open>XGlobalHeader\<close>) fails with a format error that names the record, and
  \<^verbatim>\<open>getFileList\<close> has a branch for each of the two. The branch for \<^verbatim>\<open>XHeader\<close> is never
  taken: \<^verbatim>\<open>Next()\<close> reads such a record itself and does not return it. For the archive
  \<open>paxArchive\<close>, whose first record is an \<^verbatim>\<open>XHeader\<close>, \<^verbatim>\<open>getFileList\<close> returns the one
  file that follows and \<^verbatim>\<open>processLayerTar\<close> returns a tree.
\<close>

theorem processLayerTar_builds_tree_past_XHeader:
  "Typeflag \<lparr>Name = ''PaxHeaders.0/a'', Typeflag = TypeXHeader, Header_Linkname = [],
             Header_Size = 52\<rparr> = TypeXHeader \<and>
   hd paxArchive = Inr \<lparr>Name = ''PaxHeaders.0/a'', Typeflag = TypeXHeader, Header_Linkname = [],
                       Header_Size = 52\<rparr> \<and>
   getFileList NewFileInfo paxArchive =
     Inr [\<lparr>Path = ''a'', TypeFlag = TypeReg, Linkname = [], FileInfo_Size = 100\<rparr>] \<and>
   processLayerTar NewFileInfo AddPath [] ''a/layer.tar'' 1 paxArchive = Inr paxArchiveTree"
  by (simp add: processLayerTar_def getFileList_def getFileList_loop_unfold consumedByNext_def
        NewFileTree_def NewFileInfo_def AddPath_def flag_defs paxArchive_def paxArchiveTree_def)

section \<open>The loops of the analysis\<close>

lemma index_at_Inr: "index_at xs i = Inr x \<longleftrightarrow> 0 \<le> i \<and> i < int (length xs) \<and> x = xs ! nat i"
  by (auto simp: index_at_def)

lemma index_at_Inl: "index_at xs i = Inl f \<Longrightarrow> f = Panic IndexOutOfRange"
  by (auto simp: index_at_def split: if_splits)

lemma sumLayers_Some:
  "sumLayers (map Some xs) i (ls, s, u) =
     Inr (ls @ xs, s + sum_list (map layer_Size xs),
          u + sum_list (map layer_Size (if i = 0 then tl xs else xs)))"
  by (induction xs arbitrary: i ls s u) (auto simp: add.assoc)

lemma sumLayers_None: "None \<in> set vs \<Longrightarrow> sumLayers vs i acc = Inl (Panic NilDereference)"
proof (induction vs i acc rule: sumLayers.induct)
  case (1 i acc)
  then show ?case by simp
next
  case (2 rest i acc)
  then show ?case by simp
next
  case (3 v rest i layers sizeBytes userSizeBytes)
  then show ?case by simp
qed

lemma sumLayers_Inl: "sumLayers vs i acc = Inl f \<Longrightarrow> f = Panic NilDereference"
  by (induction vs i acc rule: sumLayers.induct) auto

lemma sumLayers_Inr:
  assumes "sumLayers vs i (ls, s, u) = Inr (ls', s', u')"
  shows "vs = map Some (map the vs) \<and> ls' = ls @ map the vs \<and>
         s' = s + sum_list (map layer_Size (map the vs)) \<and>
         u' = u + sum_list (map layer_Size (if i = 0 then tl (map the vs) else map the vs))"
proof -
  have "None \<notin> set vs"
    using assms sumLayers_None [of vs i "(ls, s, u)"] by auto
  then have vs: "vs = map Some (map the vs)"
    by (induction vs) auto
  from assms sumLayers_Some [of "map the vs" i ls s u] vs show ?thesis
    by simp
qed

lemma buildLayers_Inl: "buildLayers trees paths hs layers li ti = Inl f \<Longrightarrow> \<exists>p. f = Panic p"
  by (induction trees paths hs layers li ti rule: buildLayers.induct)
     (auto split: if_splits sum.splits option.splits dest: index_at_Inl)

lemma buildLayers_step:
  assumes "\<not> EmptyLayer h" "length trees = n" "length paths = n" "length layers = n"
    and "li = int n - 1 - int k" "ti = int k"
  shows "buildLayers trees paths (h # hs) layers li ti =
     (if k < n then
        (case trees ! k of None \<Rightarrow> Inl (Panic NilDereference)
         | Some t \<Rightarrow> buildLayers trees paths hs
               (layers[n - 1 - k := Some \<lparr>tarPath = paths ! k, history = h\<lparr>Size := FileSize t\<rparr>,
                   index = li, tree = trees ! (n - 1 - k)\<rparr>])
               (li - 1) (ti + 1))
      else Inl (Panic IndexOutOfRange))"
proof (cases "k < n")
  case True
  then have n: "nat (int n - 1 - int k) = n - 1 - k" by simp
  with True assms show ?thesis
    by (simp add: index_at_def split: option.splits)
next
  case False
  with assms show ?thesis by (simp add: index_at_def)
qed

lemma buildLayers_Inr:
  assumes "buildLayers trees paths hs layers li ti = Inr layers'"
    and "length trees = n" "length paths = n" "length layers = n"
    and "li = int n - 1 - int k" "ti = int k" "k \<le> n"
  shows "k + length (nonEmpty hs) \<le> n \<and> length layers' = n \<and>
    (\<forall>j<length (nonEmpty hs). \<exists>t. trees ! (k + j) = Some t \<and>
        layers' ! (n - 1 - (k + j)) =
          Some \<lparr>tarPath = paths ! (k + j), history = (nonEmpty hs ! j)\<lparr>Size := FileSize t\<rparr>,
                index = int n - 1 - int (k + j), tree = trees ! (n - 1 - (k + j))\<rparr>) \<and>
    (\<forall>i<n. i + k + length (nonEmpty hs) < n \<or> n \<le> i + k \<longrightarrow> layers' ! i = layers ! i)"
  using assms
proof (induction hs arbitrary: layers li ti k)
  case Nil
  then show ?case by simp
next
  case (Cons h hs)
  show ?case
  proof (cases "EmptyLayer h")
    case True
    with Cons.prems(1) have "buildLayers trees paths hs layers li ti = Inr layers'"
      by simp
    from Cons.IH [OF this Cons.prems(2-7)] True show ?thesis
      by simp
  next
    case False
    let ?m = "length (nonEmpty hs)"
    from Cons.prems(1) buildLayers_step [OF False Cons.prems(2-6), of hs]
    obtain t where k: "k < n" and tk: "trees ! k = Some t"
      and run: "buildLayers trees paths hs
               (layers[n - 1 - k := Some \<lparr>tarPath = paths ! k, history = h\<lparr>Size := FileSize t\<rparr>,
                   index = li, tree = trees ! (n - 1 - k)\<rparr>])
               (li - 1) (ti + 1) = Inr layers'"
      by (auto split: if_splits option.splits)
    let ?L = "\<lparr>tarPath = paths ! k, history = h\<lparr>Size := FileSize t\<rparr>,
                   index = li, tree = trees ! (n - 1 - k)\<rparr>"
    have len: "length (layers[n - 1 - k := Some ?L]) = n"
      using Cons.prems(4) by simp
    have li': "li - 1 = int n - 1 - int (Suc k)" and ti': "ti + 1 = int (Suc k)"
      using Cons.prems(5,6) by simp_all
    from k have k': "Suc k \<le> n" by simp
    note ih = Cons.IH [OF run Cons.prems(2,3) len li' ti' k']
    from ih have bound: "Suc k + ?m \<le> n"
      by (elim conjE)
    from ih have len': "length layers' = n"
      by (elim conjE)
    from ih have filled': "\<forall>j<?m. \<exists>t. trees ! (Suc k + j) = Some t \<and>
        layers' ! (n - 1 - (Suc k + j)) =
          Some \<lparr>tarPath = paths ! (Suc k + j), history = (nonEmpty hs ! j)\<lparr>Size := FileSize t\<rparr>,
                index = int n - 1 - int (Suc k + j), tree = trees ! (n - 1 - (Suc k + j))\<rparr>"
      by (elim conjE)
    note filled = filled' [rule_format]
    from ih have kept': "\<forall>i<n. i + Suc k + ?m < n \<or> n \<le> i + Suc k \<longrightarrow>
          layers' ! i = (layers[n - 1 - k := Some ?L]) ! i"
      by (elim conjE)
    note kept = kept' [rule_format]
    have ne: "nonEmpty (h # hs) = h # nonEmpty hs"
      using False by simp
    have first: "layers' ! (n - 1 - k) = Some ?L"
    proof -
      have "layers' ! (n - 1 - k) = (layers[n - 1 - k := Some ?L]) ! (n - 1 - k)"
        using k by (intro kept) auto
      then show ?thesis using k Cons.prems(4) by simp
    qed
    have fill: "\<exists>t. trees ! (k + j) = Some t \<and>
        layers' ! (n - 1 - (k + j)) =
          Some \<lparr>tarPath = paths ! (k + j), history = (nonEmpty (h # hs) ! j)\<lparr>Size := FileSize t\<rparr>,
                index = int n - 1 - int (k + j), tree = trees ! (n - 1 - (k + j))\<rparr>"
      if "j < length (nonEmpty (h # hs))" for j
    proof (cases j)
      case 0
      with tk first Cons.prems(5) ne show ?thesis by simp
    next
      case (Suc j')
      with that ne have "j' < ?m" by simp
      from filled [OF this] Suc ne show ?thesis by simp
    qed
    have keep: "layers' ! i = layers ! i"
      if "i < n" "i + k + length (nonEmpty (h # hs)) < n \<or> n \<le> i + k" for i
    proof -
      from that ne have "i + Suc k + ?m < n \<or> n \<le> i + Suc k" by auto
      from kept [OF that(1) this] have "layers' ! i = (layers[n - 1 - k := Some ?L]) ! i" .
      moreover from that ne k have "i \<noteq> n - 1 - k" by auto
      ultimately show ?thesis by simp
    qed
    from bound ne have "k + length (nonEmpty (h # hs)) \<le> n" by simp
    moreover note len'
    moreover from fill have "\<forall>j<length (nonEmpty (h # hs)). \<exists>t. trees ! (k + j) = Some t \<and>
        layers' ! (n - 1 - (k + j)) =
          Some \<lparr>tarPath = paths ! (k + j), history = (nonEmpty (h # hs) ! j)\<lparr>Size := FileSize t\<rparr>,
                index = int n - 1 - int (k + j), tree = trees ! (n - 1 - (k + j))\<rparr>"
      by (intro allI impI)
    moreover from keep have "\<forall>i<n. i + k + length (nonEmpty (h # hs)) < n \<or> n \<le> i + k \<longrightarrow>
        layers' ! i = layers ! i"
      by (intro allI impI)
    ultimately show ?thesis by (intro conjI)
  qed
qed

lemma buildLayers_total:
  assumes "length trees = n" "length paths = n" "length layers = n"
    and "li = int n - 1 - int k" "ti = int k"
    and "k + length (nonEmpty hs) \<le> n"
    and "\<forall>j<length (nonEmpty hs). trees ! (k + j) \<noteq> None"
  shows "\<exists>layers'. buildLayers trees paths hs layers li ti = Inr layers'"
  using assms
proof (induction hs arbitrary: layers li ti k)
  case Nil
  then show ?case by simp
next
  case (Cons h hs)
  show ?case
  proof (cases "EmptyLayer h")
    case True
    with Cons.IH [OF Cons.prems(1-5)] Cons.prems(6,7) show ?thesis
      by simp
  next
    case False
    then have ne: "nonEmpty (h # hs) = h # nonEmpty hs" by simp
    with Cons.prems(6) have k: "k < n" by simp
    from Cons.prems(7) [rule_format, of 0] ne obtain t where tk: "trees ! k = Some t"
      by auto
    let ?L = "\<lparr>tarPath = paths ! k, history = h\<lparr>Size := FileSize t\<rparr>,
                   index = li, tree = trees ! (n - 1 - k)\<rparr>"
    have len: "length (layers[n - 1 - k := Some ?L]) = n"
      using Cons.prems(3) by simp
    have li': "li - 1 = int n - 1 - int (Suc k)" and ti': "ti + 1 = int (Suc k)"
      using Cons.prems(4,5) by simp_all
    have bound: "Suc k + length (nonEmpty hs) \<le> n"
      using Cons.prems(6) ne by simp
    have some: "\<forall>j<length (nonEmpty hs). trees ! (Suc k + j) \<noteq> None"
    proof (intro allI impI)
      fix j assume "j < length (nonEmpty hs)"
      then have "Suc j < length (nonEmpty (h # hs))" using ne by simp
      then have "trees ! (k + Suc j) \<noteq> None" by (rule Cons.prems(7) [rule_format])
      then show "trees ! (Suc k + j) \<noteq> None" by simp
    qed
    from Cons.IH [OF Cons.prems(1,2) len li' ti' bound some]
    obtain layers' where "buildLayers trees paths hs (layers[n - 1 - k := Some ?L]) (li - 1) (ti + 1) = Inr layers'"
      by blast
    with buildLayers_step [OF False Cons.prems(1-5), of hs] k tk show ?thesis
      by simp
  qed
qed

lemma assignIDs_Inl: "assignIDs hs d li = Inl f \<Longrightarrow> f = Panic IndexOutOfRange"
  by (induction hs d li rule: assignIDs.induct)
     (auto split: if_splits sum.splits dest: index_at_Inl)

lemma assignIDs_Inr:
  assumes "assignIDs hs d li = Inr hs'" and "li = int k" and "k \<le> length d"
  shows "k + length (nonEmpty hs) \<le> length d \<and>
         length (nonEmpty hs') = length (nonEmpty hs) \<and>
         (\<forall>j<length (nonEmpty hs). nonEmpty hs' ! j = (nonEmpty hs ! j)\<lparr>ID := d ! (k + j)\<rparr>)"
  using assms
proof (induction hs arbitrary: hs' li k)
  case Nil
  then show ?case by simp
next
  case (Cons h hs)
  show ?case
  proof (cases "EmptyLayer h")
    case True
    with Cons.prems(1) obtain rest' where rest: "assignIDs hs d li = Inr rest'"
      and hs': "hs' = h\<lparr>ID := ''<missing>''\<rparr> # rest'"
      by (auto split: sum.splits)
    from Cons.IH [OF rest Cons.prems(2,3)] True hs' show ?thesis
      by simp
  next
    case False
    with Cons.prems obtain rest' where k: "k < length d"
      and rest: "assignIDs hs d (li + 1) = Inr rest'"
      and hs': "hs' = h\<lparr>ID := d ! k\<rparr> # rest'"
      by (auto simp: index_at_Inr split: sum.splits)
    have "li + 1 = int (Suc k)" using Cons.prems(2) by simp
    moreover from k have "Suc k \<le> length d" by simp
    ultimately have ih: "Suc k + length (nonEmpty hs) \<le> length d \<and>
         length (nonEmpty rest') = length (nonEmpty hs) \<and>
         (\<forall>j<length (nonEmpty hs). nonEmpty rest' ! j = (nonEmpty hs ! j)\<lparr>ID := d ! (Suc k + j)\<rparr>)"
      by (rule Cons.IH [OF rest])
    from ih have b: "Suc k + length (nonEmpty hs) \<le> length d" by (elim conjE)
    from ih have l: "length (nonEmpty rest') = length (nonEmpty hs)" by (elim conjE)
    from ih have e': "\<forall>j<length (nonEmpty hs). nonEmpty rest' ! j = (nonEmpty hs ! j)\<lparr>ID := d ! (Suc k + j)\<rparr>"
      by (elim conjE)
    have "nonEmpty hs' ! j = (nonEmpty (h # hs) ! j)\<lparr>ID := d ! (k + j)\<rparr>"
      if "j < length (nonEmpty (h # hs))" for j
    proof (cases j)
      case 0
      with False hs' show ?thesis by simp
    next
      case (Suc j')
      with that False have "j' < length (nonEmpty hs)" by simp
      with e' have "nonEmpty rest' ! j' = (nonEmpty hs ! j')\<lparr>ID := d ! (Suc k + j')\<rparr>" by blast
      with Suc False hs' show ?thesis by simp
    qed
    with b l False hs' show ?thesis by simp
  qed
qed

lemma assignIDs_total:
  assumes "li = int k" "k + length (nonEmpty hs) \<le> length d"
  shows "\<exists>hs'. assignIDs hs d li = Inr hs'"
  using assms
proof (induction hs arbitrary: li k)
  case Nil
  then show ?case by simp
next
  case (Cons h hs)
  show ?case
  proof (cases "EmptyLayer h")
    case True
    with Cons.IH [OF Cons.prems(1)] Cons.prems(2) show ?thesis
      by auto
  next
    case False
    with Cons.prems have k: "k < length d" and b: "Suc k + length (nonEmpty hs) \<le> length d"
      by simp_all
    have "li + 1 = int (Suc k)" using Cons.prems(1) by simp
    from Cons.IH [OF this b] obtain rest' where "assignIDs hs d (li + 1) = Inr rest'"
      by blast
    with False k Cons.prems(1) show ?thesis
      by (simp add: index_at_def)
  qed
qed

lemma newDockerImageManifest_Inl:
  "newDockerImageManifest um bytes = Inl f \<Longrightarrow> \<exists>p. f = Panic p"
  by (auto simp: newDockerImageManifest_def split: sum.splits dest: index_at_Inl)

lemma newDockerImageConfig_Inl:
  "newDockerImageConfig uc bytes = Inl f \<Longrightarrow> \<exists>p. f = Panic p"
  by (auto simp: newDockerImageConfig_def split: sum.splits dest: assignIDs_Inl)

lemma Analyze_Inl_Panic:
  assumes "Analyze um uc eff q img = Inl f"
  shows "\<exists>p. f = Panic p"
proof -
  from assms show ?thesis
    unfolding Analyze_def Let_def
    by (auto split: sum.splits prod.splits
        dest: newDockerImageManifest_Inl newDockerImageConfig_Inl buildLayers_Inl sumLayers_Inl)
qed

lemma Analyze_Inr_elim:
  assumes "Analyze um uc eff q img = Inr r"
  obtains manifest config image_layers efficiency inefficiencies layers sizeBytes userSizeBytes
  where "newDockerImageManifest um (fileBytes (jsonFiles img) ''manifest.json'') = Inr manifest"
    and "newDockerImageConfig uc (fileBytes (jsonFiles img) (ConfigPath manifest)) = Inr config"
    and "buildLayers (map (layerMap img) (LayerTarPaths manifest)) (LayerTarPaths manifest)
           (History config) (replicate (length (LayerTarPaths manifest)) None)
           (int (length (LayerTarPaths manifest)) - 1) 0 = Inr image_layers"
    and "eff (map (layerMap img) (LayerTarPaths manifest)) = Inr (efficiency, inefficiencies)"
    and "sumLayers image_layers 0 ([], 0, 0) = Inr (layers, sizeBytes, userSizeBytes)"
    and "r = \<lparr>Layers = layers, RefTrees = map (layerMap img) (LayerTarPaths manifest),
             Efficiency = efficiency, UserSizeByes = userSizeBytes, SizeBytes = sizeBytes,
             WastedBytes = sumWasted inefficiencies (length inefficiencies) 0,
             WastedUserPercent = q (sumWasted inefficiencies (length inefficiencies) 0) userSizeBytes,
             Inefficiencies = inefficiencies\<rparr>"
  using assms unfolding Analyze_def Let_def
  by (auto split: sum.splits prod.splits)


lemma Analyze_valid_result:
  assumes m: "um (fileBytes (jsonFiles img) ''manifest.json'') = Inr (manifest # others)"
    and c: "uc (fileBytes (jsonFiles img) (ConfigPath manifest)) = Inr config"
    and n: "length (nonEmpty (History config)) = length (LayerTarPaths manifest)"
    and d: "length (LayerTarPaths manifest) \<le> length (DiffIds (RootFs config))"
    and t: "\<forall>path\<in>set (LayerTarPaths manifest). layerMap img path \<noteq> None"
    and e: "eff (map (layerMap img) (LayerTarPaths manifest)) = Inr (efficiency, inefficiencies)"
  shows "\<exists>r. Analyze um uc eff q img = Inr r \<and>
           RefTrees r = map (layerMap img) (LayerTarPaths manifest) \<and>
           length (Layers r) = length (LayerTarPaths manifest) \<and>
           (\<forall>i<length (LayerTarPaths manifest). \<exists>t.
               layerMap img (LayerTarPaths manifest ! i) = Some t \<and>
               Layers r ! (length (LayerTarPaths manifest) - 1 - i) =
                 \<lparr>tarPath = LayerTarPaths manifest ! i,
                  history = (nonEmpty (History config) ! i)
                              \<lparr>ID := DiffIds (RootFs config) ! i, Size := FileSize t\<rparr>,
                  index = int (length (LayerTarPaths manifest)) - 1 - int i,
                  tree = layerMap img
                           (LayerTarPaths manifest ! (length (LayerTarPaths manifest) - 1 - i))\<rparr>)"
proof -
  let ?paths = "LayerTarPaths manifest"
  let ?n = "length ?paths"
  let ?trees = "map (layerMap img) ?paths"
  let ?ids = "DiffIds (RootFs config)"
  have man: "newDockerImageManifest um (fileBytes (jsonFiles img) ''manifest.json'') = Inr manifest"
    by (simp add: newDockerImageManifest_def m index_at_def)
  from n d have "0 + length (nonEmpty (History config)) \<le> length ?ids"
    by simp
  with assignIDs_total [of 0 0 "History config" ?ids]
  obtain entries where ids: "assignIDs (History config) ?ids 0 = Inr entries"
    by auto
  have cfg: "newDockerImageConfig uc (fileBytes (jsonFiles img) (ConfigPath manifest)) =
               Inr (config\<lparr>History := entries\<rparr>)"
    by (simp add: newDockerImageConfig_def c ids)
  from assignIDs_Inr [OF ids, of 0]
  have len_e: "length (nonEmpty entries) = ?n"
    and nth_e: "\<And>j. j < ?n \<Longrightarrow> nonEmpty entries ! j = (nonEmpty (History config) ! j)\<lparr>ID := ?ids ! j\<rparr>"
    using n by simp_all
  have some: "\<forall>j<length (nonEmpty entries). ?trees ! (0 + j) \<noteq> None"
    using t len_e by simp
  have li: "int ?n - 1 = int ?n - 1 - int 0" and ti: "(0::int) = int 0"
    by simp_all
  have bound: "0 + length (nonEmpty entries) \<le> ?n"
    using len_e by simp
  from buildLayers_total [of ?trees ?n ?paths "replicate ?n None" "int ?n - 1" 0 0 entries,
      OF _ _ _ li ti bound some]
  obtain image_layers where build:
    "buildLayers ?trees ?paths entries (replicate ?n None) (int ?n - 1) 0 = Inr image_layers"
    by auto
  have inr: "0 + length (nonEmpty entries) \<le> ?n \<and> length image_layers = ?n \<and>
    (\<forall>j<length (nonEmpty entries). \<exists>t. ?trees ! (0 + j) = Some t \<and>
        image_layers ! (?n - 1 - (0 + j)) =
          Some \<lparr>tarPath = ?paths ! (0 + j), history = (nonEmpty entries ! j)\<lparr>Size := FileSize t\<rparr>,
                index = int ?n - 1 - int (0 + j), tree = ?trees ! (?n - 1 - (0 + j))\<rparr>) \<and>
    (\<forall>i<?n. i + 0 + length (nonEmpty entries) < ?n \<or> ?n \<le> i + 0 \<longrightarrow>
        image_layers ! i = replicate ?n None ! i)"
    by (rule buildLayers_Inr [OF build _ _ _ li ti]) simp_all
  from inr have len_l: "length image_layers = ?n"
    by (elim conjE)
  from inr have filled': "\<forall>j<length (nonEmpty entries). \<exists>t. ?trees ! (0 + j) = Some t \<and>
        image_layers ! (?n - 1 - (0 + j)) =
          Some \<lparr>tarPath = ?paths ! (0 + j), history = (nonEmpty entries ! j)\<lparr>Size := FileSize t\<rparr>,
                index = int ?n - 1 - int (0 + j), tree = ?trees ! (?n - 1 - (0 + j))\<rparr>"
    by (elim conjE)
  have filled: "\<exists>t. layerMap img (?paths ! j) = Some t \<and>
        image_layers ! (?n - 1 - j) =
          Some \<lparr>tarPath = ?paths ! j,
                history = (nonEmpty (History config) ! j)\<lparr>ID := ?ids ! j, Size := FileSize t\<rparr>,
                index = int ?n - 1 - int j, tree = layerMap img (?paths ! (?n - 1 - j))\<rparr>"
    if "j < ?n" for j
  proof -
    from that len_e have "j < length (nonEmpty entries)" by simp
    from filled' [rule_format, OF this] nth_e [OF that] that show ?thesis
      by simp
  qed
  have all_some: "image_layers ! i \<noteq> None" if "i < ?n" for i
  proof -
    from that have "?n - 1 - i < ?n" and "?n - 1 - (?n - 1 - i) = i" by simp_all
    with filled [of "?n - 1 - i"] show ?thesis by auto
  qed
  have "None \<notin> set image_layers"
    using all_some len_l by (auto simp: in_set_conv_nth)
  then have split: "image_layers = map Some (map the image_layers)"
    by (induction image_layers) auto
  let ?layers = "map the image_layers"
  have sum: "sumLayers image_layers 0 ([], 0, 0) =
      Inr (?layers, sum_list (map layer_Size ?layers), sum_list (map layer_Size (tl ?layers)))"
    using sumLayers_Some [of ?layers 0 "[]" 0 0] split by simp
  let ?r = "\<lparr>Layers = ?layers, RefTrees = ?trees, Efficiency = efficiency,
             UserSizeByes = sum_list (map layer_Size (tl ?layers)),
             SizeBytes = sum_list (map layer_Size ?layers),
             WastedBytes = sumWasted inefficiencies (length inefficiencies) 0,
             WastedUserPercent = q (sumWasted inefficiencies (length inefficiencies) 0)
                                   (sum_list (map layer_Size (tl ?layers))),
             Inefficiencies = inefficiencies\<rparr>"
  have run: "Analyze um uc eff q img = Inr ?r"
    unfolding Analyze_def Let_def
    by (simp add: man cfg build e sum)
  have nth: "\<exists>t. layerMap img (?paths ! i) = Some t \<and>
        Layers ?r ! (?n - 1 - i) =
          \<lparr>tarPath = ?paths ! i,
           history = (nonEmpty (History config) ! i)\<lparr>ID := ?ids ! i, Size := FileSize t\<rparr>,
           index = int ?n - 1 - int i, tree = layerMap img (?paths ! (?n - 1 - i))\<rparr>"
    if "i < ?n" for i
  proof -
    from filled [OF that] obtain t where "layerMap img (?paths ! i) = Some t"
      and "image_layers ! (?n - 1 - i) =
          Some \<lparr>tarPath = ?paths ! i,
                history = (nonEmpty (History config) ! i)\<lparr>ID := ?ids ! i, Size := FileSize t\<rparr>,
                index = int ?n - 1 - int i, tree = layerMap img (?paths ! (?n - 1 - i))\<rparr>"
      by blast
    moreover from that len_l have "?n - 1 - i < length image_layers" by simp
    ultimately show ?thesis by simp
  qed
  have "RefTrees ?r = ?trees" by simp
  moreover have "length (Layers ?r) = ?n" using len_l by simp
  moreover from nth have "\<forall>i<?n. \<exists>t. layerMap img (?paths ! i) = Some t \<and>
        Layers ?r ! (?n - 1 - i) =
          \<lparr>tarPath = ?paths ! i,
           history = (nonEmpty (History config) ! i)\<lparr>ID := ?ids ! i, Size := FileSize t\<rparr>,
           index = int ?n - 1 - int i, tree = layerMap img (?paths ! (?n - 1 - i))\<rparr>"
    by (intro allI impI)
  ultimately show ?thesis
    using run by (intro exI [of _ ?r] conjI)
qed


lemma Analyze_Inr_valid:
  assumes "Analyze um uc eff q img = Inr r"
  obtains manifest others config efficiency inefficiencies
  where "um (fileBytes (jsonFiles img) ''manifest.json'') = Inr (manifest # others)"
    and "uc (fileBytes (jsonFiles img) (ConfigPath manifest)) = Inr config"
    and "length (nonEmpty (History config)) = length (LayerTarPaths manifest)"
    and "length (LayerTarPaths manifest) \<le> length (DiffIds (RootFs config))"
    and "\<forall>path\<in>set (LayerTarPaths manifest). layerMap img path \<noteq> None"
    and "eff (map (layerMap img) (LayerTarPaths manifest)) = Inr (efficiency, inefficiencies)"
proof -
  from assms obtain manifest config' image_layers efficiency inefficiencies
      layers sizeBytes userSizeBytes
    where man: "newDockerImageManifest um (fileBytes (jsonFiles img) ''manifest.json'') = Inr manifest"
    and cfg: "newDockerImageConfig uc (fileBytes (jsonFiles img) (ConfigPath manifest)) = Inr config'"
    and build: "buildLayers (map (layerMap img) (LayerTarPaths manifest)) (LayerTarPaths manifest)
           (History config') (replicate (length (LayerTarPaths manifest)) None)
           (int (length (LayerTarPaths manifest)) - 1) 0 = Inr image_layers"
    and e: "eff (map (layerMap img) (LayerTarPaths manifest)) = Inr (efficiency, inefficiencies)"
    and sum: "sumLayers image_layers 0 ([], 0, 0) = Inr (layers, sizeBytes, userSizeBytes)"
    by (rule Analyze_Inr_elim)
  let ?paths = "LayerTarPaths manifest"
  let ?n = "length ?paths"
  let ?trees = "map (layerMap img) ?paths"
  from man obtain ms where ms: "um (fileBytes (jsonFiles img) ''manifest.json'') = Inr ms"
    and at0: "index_at ms 0 = Inr manifest"
    by (auto simp: newDockerImageManifest_def split: sum.splits)
  from at0 have "ms = manifest # tl ms"
    by (cases ms) (auto simp: index_at_def)
  with ms have m: "um (fileBytes (jsonFiles img) ''manifest.json'') = Inr (manifest # tl ms)"
    by simp
  from cfg obtain config entries
    where c: "uc (fileBytes (jsonFiles img) (ConfigPath manifest)) = Inr config"
    and ids: "assignIDs (History config) (DiffIds (RootFs config)) 0 = Inr entries"
    and config': "config' = config\<lparr>History := entries\<rparr>"
    by (auto simp: newDockerImageConfig_def split: sum.splits)
  from assignIDs_Inr [OF ids, of 0]
  have d: "length (nonEmpty (History config)) \<le> length (DiffIds (RootFs config))"
    and len_e: "length (nonEmpty entries) = length (nonEmpty (History config))"
    by simp_all
  from build config' have build':
    "buildLayers ?trees ?paths entries (replicate ?n None) (int ?n - 1) 0 = Inr image_layers"
    by simp
  have li: "int ?n - 1 = int ?n - 1 - int 0" and ti: "(0::int) = int 0"
    by simp_all
  have inr: "0 + length (nonEmpty entries) \<le> ?n \<and> length image_layers = ?n \<and>
    (\<forall>j<length (nonEmpty entries). \<exists>t. ?trees ! (0 + j) = Some t \<and>
        image_layers ! (?n - 1 - (0 + j)) =
          Some \<lparr>tarPath = ?paths ! (0 + j), history = (nonEmpty entries ! j)\<lparr>Size := FileSize t\<rparr>,
                index = int ?n - 1 - int (0 + j), tree = ?trees ! (?n - 1 - (0 + j))\<rparr>) \<and>
    (\<forall>i<?n. i + 0 + length (nonEmpty entries) < ?n \<or> ?n \<le> i + 0 \<longrightarrow>
        image_layers ! i = replicate ?n None ! i)"
    by (rule buildLayers_Inr [OF build' _ _ _ li ti]) simp_all
  from inr have bound: "0 + length (nonEmpty entries) \<le> ?n"
    by (elim conjE)
  from inr have len_l: "length image_layers = ?n"
    by (elim conjE)
  from inr have some: "\<forall>j<length (nonEmpty entries). \<exists>t. ?trees ! (0 + j) = Some t \<and>
        image_layers ! (?n - 1 - (0 + j)) =
          Some \<lparr>tarPath = ?paths ! (0 + j), history = (nonEmpty entries ! j)\<lparr>Size := FileSize t\<rparr>,
                index = int ?n - 1 - int (0 + j), tree = ?trees ! (?n - 1 - (0 + j))\<rparr>"
    by (elim conjE)
  from inr have kept: "\<forall>i<?n. i + 0 + length (nonEmpty entries) < ?n \<or> ?n \<le> i + 0 \<longrightarrow>
        image_layers ! i = replicate ?n None ! i"
    by (elim conjE)
  have no_none: "None \<notin> set image_layers"
    using sum sumLayers_None [of image_layers 0 "([], 0, 0)"] by auto
  have n: "length (nonEmpty entries) = ?n"
  proof (rule ccontr)
    assume "length (nonEmpty entries) \<noteq> ?n"
    with bound have less: "0 + 0 + length (nonEmpty entries) < ?n" by simp
    then have pos: "0 < ?n" by (cases ?paths) simp_all
    from kept [rule_format, OF pos] less have "image_layers ! 0 = replicate ?n None ! 0"
      by blast
    with pos have "image_layers ! 0 = None" by simp
    moreover from pos len_l have "image_layers ! 0 \<in> set image_layers"
      by (intro nth_mem) simp
    ultimately show False using no_none by simp
  qed
  have t: "\<forall>path\<in>set ?paths. layerMap img path \<noteq> None"
  proof
    fix path assume "path \<in> set ?paths"
    then obtain j where j: "j < ?n" and p: "?paths ! j = path"
      by (auto simp: in_set_conv_nth)
    from j n have "j < length (nonEmpty entries)" by simp
    from some [rule_format, OF this] j p show "layerMap img path \<noteq> None"
      by auto
  qed
  from n len_e have n': "length (nonEmpty (History config)) = ?n" by simp
  from n' d have d': "?n \<le> length (DiffIds (RootFs config))" by simp
  from m c n' d' t e show thesis by (rule that)
qed

lemma map_Some_the:
  "\<forall>x\<in>set xs. f x \<noteq> None \<Longrightarrow> map f xs = map Some (map (\<lambda>x. the (f x)) xs)"
  by (induction xs) auto

lemma Analyze_Inr_layers:
  assumes "Analyze um uc eff q img = Inr r"
  obtains manifest :: dockerImageManifest and config :: dockerImageConfig
  where "RefTrees r = map (layerMap img) (LayerTarPaths manifest)"
    and "\<forall>path\<in>set (LayerTarPaths manifest). layerMap img path \<noteq> None"
    and "length (Layers r) = length (LayerTarPaths manifest)"
    and "\<forall>i<length (LayerTarPaths manifest). \<exists>t.
               layerMap img (LayerTarPaths manifest ! i) = Some t \<and>
               Layers r ! (length (LayerTarPaths manifest) - 1 - i) =
                 \<lparr>tarPath = LayerTarPaths manifest ! i,
                  history = (nonEmpty (History config) ! i)
                              \<lparr>ID := DiffIds (RootFs config) ! i, Size := FileSize t\<rparr>,
                  index = int (length (LayerTarPaths manifest)) - 1 - int i,
                  tree = layerMap img
                           (LayerTarPaths manifest ! (length (LayerTarPaths manifest) - 1 - i))\<rparr>"
proof -
  from assms obtain manifest others config efficiency inefficiencies
    where m: "um (fileBytes (jsonFiles img) ''manifest.json'') = Inr (manifest # others)"
    and c: "uc (fileBytes (jsonFiles img) (ConfigPath manifest)) = Inr config"
    and n: "length (nonEmpty (History config)) = length (LayerTarPaths manifest)"
    and d: "length (LayerTarPaths manifest) \<le> length (DiffIds (RootFs config))"
    and t: "\<forall>path\<in>set (LayerTarPaths manifest). layerMap img path \<noteq> None"
    and e: "eff (map (layerMap img) (LayerTarPaths manifest)) = Inr (efficiency, inefficiencies)"
    by (rule Analyze_Inr_valid)
  from Analyze_valid_result
         [where um = um and uc = uc and eff = eff and img = img and q = q, OF m c n d t e]
  obtain r' where r': "Analyze um uc eff q img = Inr r'"
    and rest: "RefTrees r' = map (layerMap img) (LayerTarPaths manifest) \<and>
           length (Layers r') = length (LayerTarPaths manifest) \<and>
           (\<forall>i<length (LayerTarPaths manifest). \<exists>t.
               layerMap img (LayerTarPaths manifest ! i) = Some t \<and>
               Layers r' ! (length (LayerTarPaths manifest) - 1 - i) =
                 \<lparr>tarPath = LayerTarPaths manifest ! i,
                  history = (nonEmpty (History config) ! i)
                              \<lparr>ID := DiffIds (RootFs config) ! i, Size := FileSize t\<rparr>,
                  index = int (length (LayerTarPaths manifest)) - 1 - int i,
                  tree = layerMap img
                           (LayerTarPaths manifest ! (length (LayerTarPaths manifest) - 1 - i))\<rparr>)"
    by (elim exE conjE) (rule that, assumption, intro conjI)
  from r' assms have eq: "r' = r" by simp
  from rest have a: "RefTrees r = map (layerMap img) (LayerTarPaths manifest)"
    unfolding eq by (elim conjE)
  from rest have b: "length (Layers r) = length (LayerTarPaths manifest)"
    unfolding eq by (elim conjE)
  from rest have c': "\<forall>i<length (LayerTarPaths manifest). \<exists>t.
               layerMap img (LayerTarPaths manifest ! i) = Some t \<and>
               Layers r ! (length (LayerTarPaths manifest) - 1 - i) =
                 \<lparr>tarPath = LayerTarPaths manifest ! i,
                  history = (nonEmpty (History config) ! i)
                              \<lparr>ID := DiffIds (RootFs config) ! i, Size := FileSize t\<rparr>,
                  index = int (length (LayerTarPaths manifest)) - 1 - int i,
                  tree = layerMap img
                           (LayerTarPaths manifest ! (length (LayerTarPaths manifest) - 1 - i))\<rparr>"
    unfolding eq by (elim conjE)
  from a t b c' show thesis by (rule that)
qed

lemma Analyze_Inr_sums:
  assumes "Analyze um uc eff q img = Inr r"
  shows "SizeBytes r = sum_list (map layer_Size (Layers r)) \<and>
         UserSizeByes r = sum_list (map layer_Size (tl (Layers r)))"
proof -
  from assms obtain image_layers :: "'a dockerLayer option list"
      and layers sizeBytes userSizeBytes
    where sum: "sumLayers image_layers 0 ([], 0, 0) = Inr (layers, sizeBytes, userSizeBytes)"
    and r: "Layers r = layers" "SizeBytes r = sizeBytes" "UserSizeByes r = userSizeBytes"
    by (rule Analyze_Inr_elim) simp
  from sumLayers_Inr [OF sum] r show ?thesis
    by simp
qed

section \<open>The analysis on the example inputs\<close>

lemmas example_defs =
  baseEntry_def cmdEntry_def runEntry_def exampleConfig_def twoLayers_def threeLayers_def
  treeA_def treeB_def treeC_def exampleImage_def incompleteImage_def noDuplicates_def
  noFloat_def

lemmas Analyze_defs =
  Analyze_def newDockerImageManifest_def newDockerImageConfig_def index_at_def fileBytes_def
  layer_Size_def

lemma twoLayers_run:
  "Analyze (\<lambda>bytes. Inr [twoLayers]) (\<lambda>bytes. Inr exampleConfig) noDuplicates noFloat exampleImage
     = Inr twoLayersResult"
  by (simp add: Analyze_defs example_defs twoLayersResult_def)

section \<open>The assembled layers\<close>

text \<open>
  C1. The claim is that each assembled layer holds the tree its size was taken from.
  The code takes the size of the layer in slot \<open>layerIdx\<close> from the tree at
  \<open>(n - 1) - layerIdx\<close> but stores the tree at \<open>layerIdx\<close>. For the image with the two
  trees \<open>treeA\<close> (100 bytes, first in the manifest) and \<open>treeB\<close> (50 bytes), the layer in
  slot 1 has the size and the tar path of \<open>treeA\<close> and holds \<open>treeB\<close>.
\<close>

theorem Analyze_tree_is_not_size_tree:
  "Analyze (\<lambda>bytes. Inr [twoLayers]) (\<lambda>bytes. Inr exampleConfig) noDuplicates noFloat exampleImage
     = Inr twoLayersResult \<and>
   RefTrees twoLayersResult = [Some treeA, Some treeB] \<and>
   layer_Size (Layers twoLayersResult ! 1) = FileSize treeA \<and>
   tarPath (Layers twoLayersResult ! 1) = FileTree_Name treeA \<and>
   layer_Tree (Layers twoLayersResult ! 1) = Some treeB \<and>
   FileSize treeB \<noteq> layer_Size (Layers twoLayersResult ! 1)"
  using twoLayers_run
  by (simp add: twoLayersResult_def layer_Size_def layer_Tree_def treeA_def treeB_def)

text \<open>
  C8. For a manifest and a config that agree (as many layer paths as history entries
  with content, a diff id for each of them, a built tree for each path), \<^verbatim>\<open>Analyze\<close>
  returns a result with one layer per history entry with content and none for the
  others; the layer of the \<open>i\<close>-th such entry, in the order of the history, is in slot
  \<open>(n - 1) - i\<close>, has that index, the tar path \<open>LayerTarPaths ! i\<close>, and the entry itself
  as its history, with the \<open>i\<close>-th diff id and the size of the \<open>i\<close>-th tree filled in.
\<close>

theorem Analyze_layers_reverse_chronological:
  assumes "um (fileBytes (jsonFiles img) ''manifest.json'') = Inr (manifest # others)"
    and "uc (fileBytes (jsonFiles img) (ConfigPath manifest)) = Inr config"
    and "length (nonEmpty (History config)) = length (LayerTarPaths manifest)"
    and "length (LayerTarPaths manifest) \<le> length (DiffIds (RootFs config))"
    and "\<forall>path\<in>set (LayerTarPaths manifest). layerMap img path \<noteq> None"
    and "eff (map (layerMap img) (LayerTarPaths manifest)) = Inr (efficiency, inefficiencies)"
  shows "\<exists>r. Analyze um uc eff q img = Inr r \<and>
           length (Layers r) = length (nonEmpty (History config)) \<and>
           (\<forall>i<length (nonEmpty (History config)). \<exists>t.
               layerMap img (LayerTarPaths manifest ! i) = Some t \<and>
               Layers r ! (length (nonEmpty (History config)) - 1 - i) =
                 \<lparr>tarPath = LayerTarPaths manifest ! i,
                  history = (nonEmpty (History config) ! i)
                              \<lparr>ID := DiffIds (RootFs config) ! i, Size := FileSize t\<rparr>,
                  index = int (length (nonEmpty (History config))) - 1 - int i,
                  tree = layerMap img
                           (LayerTarPaths manifest ! (length (nonEmpty (History config)) - 1 - i))\<rparr>)"
proof -
  from Analyze_valid_result
         [where um = um and uc = uc and eff = eff and img = img and q = q, OF assms]
  obtain r where "Analyze um uc eff q img = Inr r"
    and "length (Layers r) = length (LayerTarPaths manifest)"
    and "\<forall>i<length (LayerTarPaths manifest). \<exists>t.
               layerMap img (LayerTarPaths manifest ! i) = Some t \<and>
               Layers r ! (length (LayerTarPaths manifest) - 1 - i) =
                 \<lparr>tarPath = LayerTarPaths manifest ! i,
                  history = (nonEmpty (History config) ! i)
                              \<lparr>ID := DiffIds (RootFs config) ! i, Size := FileSize t\<rparr>,
                  index = int (length (LayerTarPaths manifest)) - 1 - int i,
                  tree = layerMap img
                           (LayerTarPaths manifest ! (length (LayerTarPaths manifest) - 1 - i))\<rparr>"
    by (elim exE conjE) (rule that)
  then show ?thesis
    unfolding assms(3) by (intro exI conjI)
qed

theorem Analyze_layers_reverse_chronological_witness:
  "\<exists>r. Analyze (\<lambda>bytes. Inr [twoLayers]) (\<lambda>bytes. Inr exampleConfig) noDuplicates noFloat
          exampleImage = Inr r \<and>
       length (Layers r) = 2 \<and>
       index (Layers r ! 1) = 1 \<and> tarPath (Layers r ! 1) = ''a/layer.tar'' \<and>
       CreatedBy (history (Layers r ! 1)) = CreatedBy baseEntry \<and>
       index (Layers r ! 0) = 0 \<and> tarPath (Layers r ! 0) = ''b/layer.tar'' \<and>
       CreatedBy (history (Layers r ! 0)) = CreatedBy runEntry"
proof -
  have h1: "(\<lambda>bytes. Inr [twoLayers]) (fileBytes (jsonFiles exampleImage) ''manifest.json'')
              = (Inr (twoLayers # []) :: string + dockerImageManifest list)"
    by simp
  have h2: "(\<lambda>bytes. Inr exampleConfig) (fileBytes (jsonFiles exampleImage) (ConfigPath twoLayers))
              = (Inr exampleConfig :: string + dockerImageConfig)"
    by simp
  have h3: "length (nonEmpty (History exampleConfig)) = length (LayerTarPaths twoLayers)"
    by (simp add: example_defs)
  have h4: "length (LayerTarPaths twoLayers) \<le> length (DiffIds (RootFs exampleConfig))"
    by (simp add: example_defs)
  have h5: "\<forall>path\<in>set (LayerTarPaths twoLayers). layerMap exampleImage path \<noteq> None"
    by (simp add: example_defs)
  have h6: "noDuplicates (map (layerMap exampleImage) (LayerTarPaths twoLayers)) = Inr ((), [])"
    by (simp add: noDuplicates_def)
  from Analyze_layers_reverse_chronological
         [where um = "\<lambda>bytes. Inr [twoLayers]" and uc = "\<lambda>bytes. Inr exampleConfig"
            and eff = noDuplicates and img = exampleImage and q = noFloat,
          OF h1 h2 h3 h4 h5 h6]
  obtain r where run: "Analyze (\<lambda>bytes. Inr [twoLayers]) (\<lambda>bytes. Inr exampleConfig)
          noDuplicates noFloat exampleImage = Inr r"
    and len: "length (Layers r) = length (nonEmpty (History exampleConfig))"
    and nth: "\<forall>i<length (nonEmpty (History exampleConfig)). \<exists>t.
               layerMap exampleImage (LayerTarPaths twoLayers ! i) = Some t \<and>
               Layers r ! (length (nonEmpty (History exampleConfig)) - 1 - i) =
                 \<lparr>tarPath = LayerTarPaths twoLayers ! i,
                  history = (nonEmpty (History exampleConfig) ! i)
                              \<lparr>ID := DiffIds (RootFs exampleConfig) ! i, Size := FileSize t\<rparr>,
                  index = int (length (nonEmpty (History exampleConfig))) - 1 - int i,
                  tree = layerMap exampleImage
                           (LayerTarPaths twoLayers !
                              (length (nonEmpty (History exampleConfig)) - 1 - i))\<rparr>"
    by (elim exE conjE) (rule that)
  have two: "length (nonEmpty (History exampleConfig)) = 2"
    by (simp add: example_defs)
  from nth [rule_format, of 0] two
  have a: "index (Layers r ! 1) = 1 \<and> tarPath (Layers r ! 1) = ''a/layer.tar'' \<and>
       CreatedBy (history (Layers r ! 1)) = CreatedBy baseEntry"
    by (auto simp: example_defs)
  from nth [rule_format, of 1] two
  have b: "index (Layers r ! 0) = 0 \<and> tarPath (Layers r ! 0) = ''b/layer.tar'' \<and>
       CreatedBy (history (Layers r ! 0)) = CreatedBy runEntry"
    by (auto simp: example_defs)
  from run len two a b show ?thesis
    by (intro exI [of _ r]) simp
qed

section \<open>The totals\<close>

text \<open>
  The two totals of a result: \<^verbatim>\<open>SizeBytes\<close> is the sum (in 64-bit arithmetic) of the
  sizes of all layers, which is also the sum of the \<^verbatim>\<open>FileSize\<close> of all trees, and
  \<^verbatim>\<open>UserSizeByes\<close> is the sum over all layers but the one in slot 0, which has index 0.
\<close>

lemma Analyze_sizes:
  assumes "Analyze um uc eff q img = Inr r"
  shows "SizeBytes r = sum_list (map layer_Size (Layers r)) \<and>
         (\<exists>ts. RefTrees r = map Some ts \<and> SizeBytes r = sum_list (map FileSize ts)) \<and>
         UserSizeByes r = sum_list (map layer_Size (tl (Layers r))) \<and>
         (\<forall>layer rest. Layers r = layer # rest \<longrightarrow>
            index layer = 0 \<and> UserSizeByes r = SizeBytes r - layer_Size layer)"
proof -
  note sums = Analyze_Inr_sums [OF assms]
  from sums have size: "SizeBytes r = sum_list (map layer_Size (Layers r))"
    by (elim conjE)
  from sums have user: "UserSizeByes r = sum_list (map layer_Size (tl (Layers r)))"
    by (elim conjE)
  from assms obtain manifest :: dockerImageManifest and config :: dockerImageConfig
    where trees: "RefTrees r = map (layerMap img) (LayerTarPaths manifest)"
    and present: "\<forall>path\<in>set (LayerTarPaths manifest). layerMap img path \<noteq> None"
    and len: "length (Layers r) = length (LayerTarPaths manifest)"
    and nth: "\<forall>i<length (LayerTarPaths manifest). \<exists>t.
               layerMap img (LayerTarPaths manifest ! i) = Some t \<and>
               Layers r ! (length (LayerTarPaths manifest) - 1 - i) =
                 \<lparr>tarPath = LayerTarPaths manifest ! i,
                  history = (nonEmpty (History config) ! i)
                              \<lparr>ID := DiffIds (RootFs config) ! i, Size := FileSize t\<rparr>,
                  index = int (length (LayerTarPaths manifest)) - 1 - int i,
                  tree = layerMap img
                           (LayerTarPaths manifest ! (length (LayerTarPaths manifest) - 1 - i))\<rparr>"
    by (rule Analyze_Inr_layers)
  let ?paths = "LayerTarPaths manifest"
  let ?n = "length ?paths"
  let ?ts = "map (\<lambda>path. the (layerMap img path)) ?paths"
  have ref: "RefTrees r = map Some ?ts"
    unfolding trees using present by (rule map_Some_the)
  have "map layer_Size (Layers r) = rev (map FileSize ?ts)"
  proof (rule nth_equalityI)
    show "length (map layer_Size (Layers r)) = length (rev (map FileSize ?ts))"
      using len by simp
  next
    fix j assume "j < length (map layer_Size (Layers r))"
    with len have j: "j < ?n" by simp
    then have i: "?n - 1 - j < ?n" and again: "?n - 1 - (?n - 1 - j) = j" by simp_all
    from nth [rule_format, OF i] obtain t
      where t: "layerMap img (?paths ! (?n - 1 - j)) = Some t"
      and l: "Size (history (Layers r ! (?n - 1 - (?n - 1 - j)))) = FileSize t"
      by auto
    from l again have "layer_Size (Layers r ! j) = FileSize t"
      by (simp add: layer_Size_def)
    moreover from t i have "?ts ! (?n - 1 - j) = t"
      by simp
    moreover have "rev (map FileSize ?ts) ! j = FileSize (?ts ! (?n - 1 - j))"
      using j i by (simp add: rev_nth)
    ultimately show "map layer_Size (Layers r) ! j = rev (map FileSize ?ts) ! j"
      using j len by simp
  qed
  then have "sum_list (map layer_Size (Layers r)) = sum_list (map FileSize ?ts)"
    by (simp only: sum_list_rev)
  with size have "SizeBytes r = sum_list (map FileSize ?ts)"
    by simp
  with ref have total:
    "\<exists>ts. RefTrees r = map Some ts \<and> SizeBytes r = sum_list (map FileSize ts)"
    by (intro exI [of _ ?ts] conjI)
  have first: "\<forall>layer rest. Layers r = layer # rest \<longrightarrow>
            index layer = 0 \<and> UserSizeByes r = SizeBytes r - layer_Size layer"
  proof (intro allI impI)
    fix layer rest assume cons: "Layers r = layer # rest"
    with len have pos: "?n - 1 < ?n" by (cases ?paths) simp_all
    from nth [rule_format, OF pos] obtain t where
      "index (Layers r ! (?n - 1 - (?n - 1))) = int ?n - 1 - int (?n - 1)"
      by auto
    with cons pos have "index layer = 0"
      by simp
    moreover from size user cons have "UserSizeByes r = SizeBytes r - layer_Size layer"
      by simp
    ultimately show "index layer = 0 \<and> UserSizeByes r = SizeBytes r - layer_Size layer" ..
  qed
  from size total user first show ?thesis
    by (intro conjI)
qed


text \<open>
  C2. The claim is that \<^verbatim>\<open>userSizeBytes\<close> is the total without the base layer, the
  layer of the first history entry with content, which has index \<open>n - 1\<close>. The summing
  loop leaves out slot 0 instead, where the assembling loop has put the layer of the
  last such entry. For the image with the base layer of 100 bytes (\<^verbatim>\<open>ADD\<close>, index 1) and
  a second layer of 50 bytes (\<^verbatim>\<open>RUN\<close>, index 0), the total is 150 and the total without
  the base layer is 50, but \<^verbatim>\<open>UserSizeByes\<close> is 100: the bytes of the base layer.
\<close>

theorem Analyze_userSizeBytes_keeps_base_layer:
  "Analyze (\<lambda>bytes. Inr [twoLayers]) (\<lambda>bytes. Inr exampleConfig) noDuplicates noFloat exampleImage
     = Inr twoLayersResult \<and>
   nonEmpty (History exampleConfig) ! 0 = baseEntry \<and>
   length (Layers twoLayersResult) = 2 \<and>
   index (Layers twoLayersResult ! 1) = 2 - 1 \<and>
   CreatedBy (history (Layers twoLayersResult ! 1)) = CreatedBy baseEntry \<and>
   layer_Size (Layers twoLayersResult ! 1) = 100 \<and>
   SizeBytes twoLayersResult = 150 \<and>
   SizeBytes twoLayersResult - layer_Size (Layers twoLayersResult ! 1) = 50 \<and>
   UserSizeByes twoLayersResult = 100 \<and>
   UserSizeByes twoLayersResult \<noteq>
     SizeBytes twoLayersResult - layer_Size (Layers twoLayersResult ! 1)"
  using twoLayers_run
  by (simp add: twoLayersResult_def layer_Size_def exampleConfig_def baseEntry_def cmdEntry_def
        runEntry_def)

section \<open>Inputs that do not fit together\<close>

lemma buildLayers_Inl_kinds:
  "buildLayers trees paths hs layers li ti = Inl f \<Longrightarrow>
     f = Panic IndexOutOfRange \<or> f = Panic NilDereference"
  by (induction trees paths hs layers li ti rule: buildLayers.induct)
     (auto split: if_splits sum.splits option.splits dest: index_at_Inl)

lemma Analyze_Inl_kinds:
  assumes "um (fileBytes (jsonFiles img) ''manifest.json'') = Inr (manifest # others)"
    and "uc (fileBytes (jsonFiles img) (ConfigPath manifest)) = Inr config"
    and "Analyze um uc eff q img = Inl f"
  shows "f = Panic IndexOutOfRange \<or> f = Panic NilDereference \<or>
         (\<exists>p. eff (map (layerMap img) (LayerTarPaths manifest)) = Inl p \<and> f = Panic p)"
proof -
  have man: "newDockerImageManifest um (fileBytes (jsonFiles img) ''manifest.json'') = Inr manifest"
    by (simp add: newDockerImageManifest_def assms(1) index_at_def)
  show ?thesis
  proof (cases "assignIDs (History config) (DiffIds (RootFs config)) 0")
    case (Inl e)
    with assms(2) have "newDockerImageConfig uc (fileBytes (jsonFiles img) (ConfigPath manifest)) = Inl e"
      by (simp add: newDockerImageConfig_def)
    with man assms(3) have "f = e"
      by (simp add: Analyze_def)
    with assignIDs_Inl [OF Inl] show ?thesis by simp
  next
    case (Inr entries)
    with assms(2) have cfg:
      "newDockerImageConfig uc (fileBytes (jsonFiles img) (ConfigPath manifest)) =
         Inr (config\<lparr>History := entries\<rparr>)"
      by (simp add: newDockerImageConfig_def)
    let ?trees = "map (layerMap img) (LayerTarPaths manifest)"
    show ?thesis
    proof (cases "buildLayers ?trees (LayerTarPaths manifest) entries
                    (replicate (length ?trees) None) (int (length ?trees) - 1) 0")
      case (Inl e)
      with man cfg assms(3) have "f = e"
        by (simp add: Analyze_def Let_def)
      with buildLayers_Inl_kinds [OF Inl] show ?thesis by blast
    next
      case build: (Inr image_layers)
      show ?thesis
      proof (cases "eff ?trees")
        case (Inl p)
        with man cfg build assms(3) have "f = Panic p"
          by (simp add: Analyze_def Let_def)
        with Inl show ?thesis by simp
      next
        case eff: (Inr scored)
        show ?thesis
        proof (cases "sumLayers image_layers 0 ([], 0, 0)")
          case (Inl e)
          with man cfg build eff assms(3) have "f = e"
            by (simp add: Analyze_def Let_def split: prod.splits)
          with sumLayers_Inl [OF Inl] show ?thesis by simp
        next
          case (Inr sums)
          with man cfg build eff assms(3) have False
            by (simp add: Analyze_def Let_def split: prod.splits)
          then show ?thesis ..
        qed
      qed
    qed
  qed
qed

text \<open>
  C3, as the code has it. When the manifest has another number of layer paths than
  the history has entries with content, \<^verbatim>\<open>Analyze\<close> returns neither a result nor an
  error: it panics, with an index out of range, with a nil dereference, or with the
  panic of \<^verbatim>\<open>filetree.Efficiency\<close> when that call panics.
\<close>

theorem Analyze_count_mismatch_panics:
  assumes "um (fileBytes (jsonFiles img) ''manifest.json'') = Inr (manifest # others)"
    and "uc (fileBytes (jsonFiles img) (ConfigPath manifest)) = Inr config"
    and "length (LayerTarPaths manifest) \<noteq> length (nonEmpty (History config))"
  shows "Analyze um uc eff q img = Inl (Panic IndexOutOfRange) \<or>
         Analyze um uc eff q img = Inl (Panic NilDereference) \<or>
         (\<exists>p. eff (map (layerMap img) (LayerTarPaths manifest)) = Inl p \<and>
              Analyze um uc eff q img = Inl (Panic p))"
proof (cases "Analyze um uc eff q img")
  case (Inl f)
  from Analyze_Inl_kinds [OF assms(1,2) Inl] Inl show ?thesis
    by auto
next
  case (Inr r)
  then obtain manifest' others' config' efficiency inefficiencies
    where "um (fileBytes (jsonFiles img) ''manifest.json'') = Inr (manifest' # others')"
    and "uc (fileBytes (jsonFiles img) (ConfigPath manifest')) = Inr config'"
    and "length (nonEmpty (History config')) = length (LayerTarPaths manifest')"
    and "length (LayerTarPaths manifest') \<le> length (DiffIds (RootFs config'))"
    and "\<forall>path\<in>set (LayerTarPaths manifest'). layerMap img path \<noteq> None"
    and "eff (map (layerMap img) (LayerTarPaths manifest')) = Inr (efficiency, inefficiencies)"
    by (rule Analyze_Inr_valid)
  with assms have False by simp
  then show ?thesis ..
qed

theorem Analyze_count_mismatch_panics_witness:
  "Analyze (\<lambda>bytes. Inr [threeLayers]) (\<lambda>bytes. Inr exampleConfig) noDuplicates noFloat
     exampleImage = Inl (Panic IndexOutOfRange) \<or>
   Analyze (\<lambda>bytes. Inr [threeLayers]) (\<lambda>bytes. Inr exampleConfig) noDuplicates noFloat
     exampleImage = Inl (Panic NilDereference)"
proof -
  have h1: "(\<lambda>bytes. Inr [threeLayers]) (fileBytes (jsonFiles exampleImage) ''manifest.json'')
              = (Inr (threeLayers # []) :: string + dockerImageManifest list)"
    by simp
  have h2: "(\<lambda>bytes. Inr exampleConfig) (fileBytes (jsonFiles exampleImage) (ConfigPath threeLayers))
              = (Inr exampleConfig :: string + dockerImageConfig)"
    by simp
  have h3: "length (LayerTarPaths threeLayers) \<noteq> length (nonEmpty (History exampleConfig))"
    by (simp add: example_defs)
  have h4: "noDuplicates (map (layerMap exampleImage) (LayerTarPaths threeLayers)) \<noteq> Inl p"
    for p by (simp add: noDuplicates_def)
  from Analyze_count_mismatch_panics
         [where um = "\<lambda>bytes. Inr [threeLayers]" and uc = "\<lambda>bytes. Inr exampleConfig"
            and eff = noDuplicates and q = noFloat,
          OF h1 h2 h3]
    h4
  show ?thesis by blast
qed

text \<open>
  C3, as the specification states it, fails. With three layer paths and two history
  entries with content the run ends in a nil dereference, not in an error value.
\<close>

theorem count_mismatch_counterexample:
  "length (LayerTarPaths threeLayers) = 3 \<and> length (nonEmpty (History exampleConfig)) = 2 \<and>
   Analyze (\<lambda>bytes. Inr [threeLayers]) (\<lambda>bytes. Inr exampleConfig) noDuplicates noFloat
     exampleImage = Inl (Panic NilDereference)"
  by (simp add: Analyze_defs example_defs)

text \<open>
  C4, as the code has it. When a layer path of the manifest has no built tree,
  \<^verbatim>\<open>Analyze\<close> returns neither a result nor an error: it panics.
\<close>

theorem Analyze_missing_tree_panics:
  assumes "um (fileBytes (jsonFiles img) ''manifest.json'') = Inr (manifest # others)"
    and "uc (fileBytes (jsonFiles img) (ConfigPath manifest)) = Inr config"
    and "\<exists>path\<in>set (LayerTarPaths manifest). layerMap img path = None"
  shows "\<exists>p. Analyze um uc eff q img = Inl (Panic p)"
proof (cases "Analyze um uc eff q img")
  case (Inl f)
  with Analyze_Inl_Panic [OF Inl] show ?thesis by auto
next
  case (Inr r)
  then obtain manifest' others' config' efficiency inefficiencies
    where "um (fileBytes (jsonFiles img) ''manifest.json'') = Inr (manifest' # others')"
    and "uc (fileBytes (jsonFiles img) (ConfigPath manifest')) = Inr config'"
    and "length (nonEmpty (History config')) = length (LayerTarPaths manifest')"
    and "length (LayerTarPaths manifest') \<le> length (DiffIds (RootFs config'))"
    and "\<forall>path\<in>set (LayerTarPaths manifest'). layerMap img path \<noteq> None"
    and "eff (map (layerMap img) (LayerTarPaths manifest')) = Inr (efficiency, inefficiencies)"
    by (rule Analyze_Inr_valid)
  with assms have False by auto
  then show ?thesis ..
qed

theorem Analyze_missing_tree_panics_witness:
  "\<exists>p. Analyze (\<lambda>bytes. Inr [twoLayers]) (\<lambda>bytes. Inr exampleConfig) noDuplicates noFloat
          incompleteImage = Inl (Panic p)"
proof -
  have h1: "(\<lambda>bytes. Inr [twoLayers]) (fileBytes (jsonFiles incompleteImage) ''manifest.json'')
              = (Inr (twoLayers # []) :: string + dockerImageManifest list)"
    by simp
  have h2: "(\<lambda>bytes. Inr exampleConfig) (fileBytes (jsonFiles incompleteImage) (ConfigPath twoLayers))
              = (Inr exampleConfig :: string + dockerImageConfig)"
    by simp
  have h3: "\<exists>path\<in>set (LayerTarPaths twoLayers). layerMap incompleteImage path = None"
    by (simp add: example_defs)
  show ?thesis
    by (rule Analyze_missing_tree_panics
         [where um = "\<lambda>bytes. Inr [twoLayers]" and uc = "\<lambda>bytes. Inr exampleConfig",
          OF h1 h2 h3])
qed

text \<open>
  C4, as the specification states it, fails. With no tree for the second layer path
  the run ends in a nil dereference, not in an error value.
\<close>

theorem missing_tree_counterexample:
  "LayerTarPaths twoLayers ! 1 = ''b/layer.tar'' \<and>
   layerMap incompleteImage ''b/layer.tar'' = None \<and>
   Analyze (\<lambda>bytes. Inr [twoLayers]) (\<lambda>bytes. Inr exampleConfig) noDuplicates noFloat
     incompleteImage = Inl (Panic NilDereference)"
  by (simp add: Analyze_defs example_defs)

text \<open>
  C9, as the code has it. When \<^verbatim>\<open>json.Unmarshal\<close> fails on the manifest bytes, or on
  the config bytes of a decoded manifest, \<^verbatim>\<open>Analyze\<close> returns neither a result nor an
  error: it panics with the decoder's error, through \<^verbatim>\<open>logrus.Panic\<close>.
\<close>

theorem Analyze_undecodable_panics:
  "(um (fileBytes (jsonFiles img) ''manifest.json'') = Inl err \<longrightarrow>
      Analyze um uc eff q img = Inl (Panic (LogrusPanic err))) \<and>
   (um (fileBytes (jsonFiles img) ''manifest.json'') = Inr (manifest # others) \<and>
    uc (fileBytes (jsonFiles img) (ConfigPath manifest)) = Inl err \<longrightarrow>
      Analyze um uc eff q img = Inl (Panic (LogrusPanic err)))"
  by (simp add: Analyze_def newDockerImageManifest_def newDockerImageConfig_def index_at_def)

theorem Analyze_undecodable_panics_witness:
  "Analyze (\<lambda>bytes. Inl ''unexpected end of JSON input'') (\<lambda>bytes. Inr exampleConfig)
     noDuplicates noFloat exampleImage
     = Inl (Panic (LogrusPanic ''unexpected end of JSON input'')) \<and>
   Analyze (\<lambda>bytes. Inr [twoLayers]) (\<lambda>bytes. Inl ''invalid character'')
     noDuplicates noFloat exampleImage
     = Inl (Panic (LogrusPanic ''invalid character''))"
  using Analyze_undecodable_panics
      [where um = "\<lambda>bytes. Inl ''unexpected end of JSON input''"
         and uc = "\<lambda>bytes. Inr exampleConfig" and eff = noDuplicates and q = noFloat
         and img = exampleImage and err = "''unexpected end of JSON input''"]
    Analyze_undecodable_panics
      [where um = "\<lambda>bytes. Inr [twoLayers]"
         and uc = "\<lambda>bytes. Inl ''invalid character''" and eff = noDuplicates and q = noFloat
         and img = exampleImage and err = "''invalid character''" and manifest = twoLayers
         and others = "[]"]
  by simp

text \<open>
  C9, as the specification states it, fails. Manifest bytes that are not JSON make
  the run panic with the decoder's error, and a manifest that decodes to an empty
  array makes it panic at \<^verbatim>\<open>manifest[0]\<close>.
\<close>

theorem malformed_manifest_counterexample:
  "Analyze (\<lambda>bytes. Inl ''unexpected end of JSON input'') (\<lambda>bytes. Inr exampleConfig)
     noDuplicates noFloat exampleImage
     = Inl (Panic (LogrusPanic ''unexpected end of JSON input'')) \<and>
   Analyze (\<lambda>bytes. Inr []) (\<lambda>bytes. Inr exampleConfig) noDuplicates noFloat exampleImage
     = Inl (Panic IndexOutOfRange)"
  by (simp add: Analyze_defs example_defs)

section \<open>The efficiency score: properties\<close>

text \<open>
  C5. The score has a value for all byte counts: \<open>1 - wastedBytes / userSizeBytes\<close>
  when \<open>userSizeBytes > 0\<close>, and \<open>1\<close> when \<open>userSizeBytes = 0\<close>, where the quotient has
  none.
\<close>

theorem efficiencyScore_total:
  "(\<exists>score. efficiencyScore wastedBytes userSizeBytes = Some score) \<and>
   (0 < userSizeBytes \<longrightarrow>
      efficiencyScore wastedBytes userSizeBytes =
        Some (1 - real (unat wastedBytes) / real (unat userSizeBytes))) \<and>
   (userSizeBytes = 0 \<longrightarrow> efficiencyScore wastedBytes userSizeBytes = Some 1 \<and>
      byteRatio wastedBytes userSizeBytes = None)"
  by (auto simp: efficiencyScore_def byteRatio_def word_gt_0)

theorem efficiencyScore_total_witness:
  "efficiencyScore 50 150 = Some (2 / 3) \<and> efficiencyScore 50 0 = Some 1 \<and>
   byteRatio 50 0 = None"
  using efficiencyScore_total [of 50 150] efficiencyScore_total [of 50 0]
  by simp

end
